theory Spec2Isabelle
  imports Main "HOL-Library.Word"
begin

unbundle bit_operations_syntax

section \<open>Errors\<close>

text \<open>
  The three exception classes thrown by the modelled sources:
  \<^verbatim>\<open>std::logic_error\<close>, \<^verbatim>\<open>std::underflow_error\<close> and \<^verbatim>\<open>std::invalid_argument\<close>.
  A member function that may throw returns a pair: its outcome (\<open>Inl\<close> the exception,
  \<open>Inr\<close> the returned value) and the object as the call leaves it, so that what a
  throwing call has already written stays visible.
\<close>

datatype error = LogicError | UnderflowError | InvalidArgument

section \<open>Command list (CommandListBase.cpp)\<close>

datatype State = Pending | Committed | Executing

text \<open>
  Modelled from the spec: \<^verbatim>\<open>CommandListBase::CommandState\<close> and its factory
  \<^verbatim>\<open>CommandState::Create\<close> are declared outside the given sources. The one field the sources
  use is \<^verbatim>\<open>p_program_bindings\<close> (written by \<^verbatim>\<open>SetProgramBindings\<close>); a program-bindings
  object is named by a number, \<open>None\<close> is the null pointer. A freshly created state has the
  pointer cleared.
\<close>

record CommandState =
  p_program_bindings :: "nat option"

definition CommandState_Create :: "nat \<Rightarrow> CommandState" where
  "CommandState_Create ty = \<lparr> p_program_bindings = None \<rparr>"

text \<open>
  The members of \<^verbatim>\<open>CommandListBase\<close>. The stack \<^verbatim>\<open>m_open_debug_groups\<close> is a list whose head
  is the top; \<^verbatim>\<open>m_debug_group_names\<close> is the pool (a \<^verbatim>\<open>std::set\<close>) of every name ever
  pushed. The command-list type is kept as the number of its enumerator.
\<close>

record CommandListBase =
  m_type :: nat
  m_state :: State
  m_committed_frame_index :: "32 word"
  m_open_debug_groups :: "string list"
  m_debug_group_names :: "string set"
  m_sp_command_state :: CommandState

text \<open>
  Modelled from the spec: the default member initialisers of \<^verbatim>\<open>CommandListBase\<close> are in the
  class declaration, outside the given sources; the initial state is Pending, with no open
  debug group. The constructor itself stores the type and creates a command state for it.
\<close>

definition CommandListBase_init :: "nat \<Rightarrow> CommandListBase" where
  "CommandListBase_init ty =
     \<lparr> m_type = ty, m_state = Pending, m_committed_frame_index = 0,
       m_open_debug_groups = [], m_debug_group_names = {},
       m_sp_command_state = CommandState_Create ty \<rparr>"

definition PushOpenDebugGroup :: "string \<Rightarrow> CommandListBase \<Rightarrow> string \<times> CommandListBase" where
  "PushOpenDebugGroup name cl =
     (name, cl\<lparr> m_debug_group_names := insert name (m_debug_group_names cl),
                m_open_debug_groups := name # m_open_debug_groups cl \<rparr>)"

definition PushDebugGroup :: "string \<Rightarrow> CommandListBase \<Rightarrow> CommandListBase" where
  "PushDebugGroup name cl = snd (PushOpenDebugGroup name cl)"

definition PopDebugGroup :: "CommandListBase \<Rightarrow> (error + unit) \<times> CommandListBase" where
  "PopDebugGroup cl =
     (if m_open_debug_groups cl = [] then (Inl UnderflowError, cl)
      else (Inr (), cl\<lparr> m_open_debug_groups := tl (m_open_debug_groups cl) \<rparr>))"

definition Reset :: "string \<Rightarrow> CommandListBase \<Rightarrow> (error + unit) \<times> CommandListBase" where
  "Reset debug_group cl =
     (if m_state cl \<noteq> Pending then (Inl LogicError, cl)
      else
        let debug_group_changed =
              (m_open_debug_groups cl = [] \<or> hd (m_open_debug_groups cl) \<noteq> debug_group);
            popped = (if m_open_debug_groups cl \<noteq> [] \<and> debug_group_changed
                      then PopDebugGroup cl else (Inr (), cl))
        in case fst popped of
             Inl e \<Rightarrow> (Inl e, snd popped)
           | Inr u \<Rightarrow>
               (if debug_group \<noteq> [] \<and> debug_group_changed
                then (Inr (), PushDebugGroup debug_group (snd popped))
                else (Inr (), snd popped)))"

text \<open>
  \<^verbatim>\<open>SetProgramBindings\<close>: the call \<^verbatim>\<open>program_bindings_base.Apply(*this, apply_behavior)\<close>
  writes to the backend command list, which the model does not carry; what is left is the
  state check and the pointer recorded in the command state.
\<close>

definition SetProgramBindings :: "nat \<Rightarrow> CommandListBase \<Rightarrow> (error + unit) \<times> CommandListBase" where
  "SetProgramBindings program_bindings cl =
     (if m_state cl \<noteq> Pending then (Inl LogicError, cl)
      else (Inr (), cl\<lparr> m_sp_command_state :=
                          (m_sp_command_state cl)\<lparr> p_program_bindings := Some program_bindings \<rparr> \<rparr>))"

definition ResetCommandState :: "CommandListBase \<Rightarrow> CommandListBase" where
  "ResetCommandState cl = cl\<lparr> m_sp_command_state := CommandState_Create (m_type cl) \<rparr>"

text \<open>
  Modelled from the spec: the top-most overriding \<^verbatim>\<open>Reset\<close> of the concrete command-list
  classes is outside the given sources. The note in \<^verbatim>\<open>CommandListBase::Reset\<close> says that it
  is the one to call \<^verbatim>\<open>ResetCommandState()\<close>, and the spec that \<open>Reset\<close> is rejected outside
  the Pending state, handles the debug group and produces a fresh command-recording state:
  it runs the \<open>Reset\<close> of the base class and, when that has not thrown,
  \<open>ResetCommandState\<close>.
\<close>

definition Reset_override :: "string \<Rightarrow> CommandListBase \<Rightarrow> (error + unit) \<times> CommandListBase" where
  "Reset_override debug_group cl =
     (case Reset debug_group cl of
        (Inl e, cl') \<Rightarrow> (Inl e, cl')
      | (Inr u, cl') \<Rightarrow> (Inr (), ResetCommandState cl'))"

text \<open>
  \<^verbatim>\<open>GetCurrentFrameIndex()\<close> reads the frame-buffer index of the command queue, an object
  outside the list: \<open>Commit\<close> takes the value read as its first argument.
\<close>

definition Commit :: "32 word \<Rightarrow> CommandListBase \<Rightarrow> (error + unit) \<times> CommandListBase" where
  "Commit current_frame_index cl =
     (if m_state cl \<noteq> Pending then (Inl LogicError, cl)
      else
        let cl1 = cl\<lparr> m_committed_frame_index := current_frame_index, m_state := Committed \<rparr>
        in if m_open_debug_groups cl1 \<noteq> [] then PopDebugGroup cl1 else (Inr (), cl1))"

definition Execute :: "32 word \<Rightarrow> CommandListBase \<Rightarrow> (error + unit) \<times> CommandListBase" where
  "Execute frame_index cl =
     (if m_state cl \<noteq> Committed then (Inl LogicError, cl)
      else if m_committed_frame_index cl \<noteq> frame_index then (Inl LogicError, cl)
      else (Inr (), cl\<lparr> m_state := Executing \<rparr>))"

definition Complete :: "32 word \<Rightarrow> CommandListBase \<Rightarrow> (error + unit) \<times> CommandListBase" where
  "Complete frame_index cl =
     (if m_state cl \<noteq> Executing then (Inl LogicError, cl)
      else if m_committed_frame_index cl \<noteq> frame_index then (Inl LogicError, cl)
      else (Inr (), cl\<lparr> m_state := Pending \<rparr>))"

text \<open>Pushing a list of names one after the other, and popping \<open>n\<close> times, stopping at the
  first pop that throws.\<close>

fun push_all :: "string list \<Rightarrow> CommandListBase \<Rightarrow> CommandListBase" where
  "push_all [] cl = cl"
| "push_all (name # names) cl = push_all names (PushDebugGroup name cl)"

fun pop_times :: "nat \<Rightarrow> CommandListBase \<Rightarrow> (error + unit) \<times> CommandListBase" where
  "pop_times 0 cl = (Inr (), cl)"
| "pop_times (Suc n) cl =
     (case PopDebugGroup cl of
        (Inl e, cl') \<Rightarrow> (Inl e, cl')
      | (Inr u, cl') \<Rightarrow> pop_times n cl')"

section \<open>Descriptor heaps and the resource manager (ResourceManager.cpp)\<close>

text \<open>
  Modelled from the spec: \<^verbatim>\<open>DescriptorHeap\<close>, its \<^verbatim>\<open>Type\<close> enumeration and its
  \<^verbatim>\<open>Settings\<close> are declared outside the given sources. The enumeration ends with the two
  sentinels \<^verbatim>\<open>Count\<close> and \<^verbatim>\<open>Undefined\<close>; the enumerators before them are the valid heap
  types. They are the values of a type \<open>'t\<close>, and wherever the source runs over
  \<^verbatim>\<open>0 .. Count - 1\<close> the model runs over a list \<open>heap_types\<close> of them, in declaration
  order. An array indexed by the heap type is a function on \<open>'t\<close>.
  The predicate \<^verbatim>\<open>DescriptorHeap::IsShaderVisibleHeapType\<close> is a parameter.
  The settings are the aggregate \<^verbatim>\<open>{ type, size, deferred_allocation, shader_visible }\<close> that
  \<^verbatim>\<open>Initialize\<close> builds; a heap created from settings keeps them and reports them through
  \<^verbatim>\<open>GetSettings\<close>.
\<close>

datatype 't DescriptorHeap_Type = HeapType 't | Count | Undefined

record 't DescriptorHeap_Settings =
  type :: "'t DescriptorHeap_Type"
  size' :: "32 word"
  deferred_allocation :: bool
  shader_visible :: bool

record 't DescriptorHeap =
  GetSettings :: "'t DescriptorHeap_Settings"

definition DescriptorHeap_Create :: "'t DescriptorHeap_Settings \<Rightarrow> 't DescriptorHeap" where
  "DescriptorHeap_Create settings = \<lparr> GetSettings = settings \<rparr>"

record 't ResourceManager_Settings =
  deferred_heap_allocation :: bool
  default_heap_sizes :: "'t \<Rightarrow> 32 word"
  shader_visible_heap_sizes :: "'t \<Rightarrow> 32 word"

text \<open>
  The members of \<^verbatim>\<open>ResourceManager\<close> that the heap operations use. A bucket holds shared
  pointers, \<open>None\<close> being the empty pointer.
\<close>

record 't ResourceManager =
  m_deferred_heap_allocation :: bool
  m_descriptor_heap_types :: "'t \<Rightarrow> 't DescriptorHeap option list"

text \<open>The body of the loop of \<^verbatim>\<open>Initialize\<close> for one heap type: the bucket is cleared, the
  CPU-only heap is pushed, then the shader-visible one where the type allows it.\<close>

definition Initialize_heap_type ::
  "('t DescriptorHeap_Type \<Rightarrow> bool) \<Rightarrow> 't ResourceManager_Settings \<Rightarrow> 't
    \<Rightarrow> 't ResourceManager \<Rightarrow> 't ResourceManager" where
  "Initialize_heap_type IsShaderVisibleHeapType settings heap_type_idx rm =
     (let heap_type = HeapType heap_type_idx;
          desc_heaps0 = [];
          desc_heaps1 = desc_heaps0 @
            [Some (DescriptorHeap_Create
               \<lparr> type = heap_type, size' = default_heap_sizes settings heap_type_idx,
                 deferred_allocation = m_deferred_heap_allocation rm, shader_visible = False \<rparr>)];
          desc_heaps2 =
            (if IsShaderVisibleHeapType heap_type
             then desc_heaps1 @
               [Some (DescriptorHeap_Create
                  \<lparr> type = heap_type, size' = shader_visible_heap_sizes settings heap_type_idx,
                    deferred_allocation = m_deferred_heap_allocation rm, shader_visible = True \<rparr>)]
             else desc_heaps1)
      in rm\<lparr> m_descriptor_heap_types := (m_descriptor_heap_types rm)(heap_type_idx := desc_heaps2) \<rparr>)"

fun Initialize_loop ::
  "('t DescriptorHeap_Type \<Rightarrow> bool) \<Rightarrow> 't ResourceManager_Settings \<Rightarrow> 't list
    \<Rightarrow> 't ResourceManager \<Rightarrow> 't ResourceManager" where
  "Initialize_loop sv settings [] rm = rm"
| "Initialize_loop sv settings (t # ts) rm =
     Initialize_loop sv settings ts (Initialize_heap_type sv settings t rm)"

definition Initialize ::
  "('t DescriptorHeap_Type \<Rightarrow> bool) \<Rightarrow> 't list \<Rightarrow> 't ResourceManager_Settings
    \<Rightarrow> 't ResourceManager \<Rightarrow> 't ResourceManager" where
  "Initialize IsShaderVisibleHeapType heap_types settings rm =
     Initialize_loop IsShaderVisibleHeapType settings heap_types
       (rm\<lparr> m_deferred_heap_allocation := deferred_heap_allocation settings \<rparr>)"

text \<open>The returned index is \<^verbatim>\<open>static_cast<uint32_t>(desc_heaps.size() - 1)\<close>.\<close>

definition CreateDescriptorHeap ::
  "'t DescriptorHeap_Settings \<Rightarrow> 't ResourceManager \<Rightarrow> (error + 32 word) \<times> 't ResourceManager" where
  "CreateDescriptorHeap settings rm =
     (case type settings of
        Undefined \<Rightarrow> (Inl InvalidArgument, rm)
      | Count \<Rightarrow> (Inl InvalidArgument, rm)
      | HeapType t \<Rightarrow>
          (let desc_heaps = m_descriptor_heap_types rm t @ [Some (DescriptorHeap_Create settings)]
           in (Inr (word_of_nat (length desc_heaps - 1)),
               rm\<lparr> m_descriptor_heap_types := (m_descriptor_heap_types rm)(t := desc_heaps) \<rparr>)))"

definition GetDescriptorHeapPtr ::
  "'t DescriptorHeap_Type \<Rightarrow> 32 word \<Rightarrow> 't ResourceManager \<Rightarrow> error + 't DescriptorHeap option" where
  "GetDescriptorHeapPtr ty heap_index rm =
     (case ty of
        Undefined \<Rightarrow> Inr None
      | Count \<Rightarrow> Inr None
      | HeapType t \<Rightarrow>
          (if unat heap_index \<ge> length (m_descriptor_heap_types rm t) then Inl InvalidArgument
           else Inr (m_descriptor_heap_types rm t ! unat heap_index)))"

definition GetDescriptorHeap ::
  "'t DescriptorHeap_Type \<Rightarrow> 32 word \<Rightarrow> 't ResourceManager \<Rightarrow> error + 't DescriptorHeap" where
  "GetDescriptorHeap ty heap_index rm =
     (if ty = Undefined \<or> ty = Count then Inl InvalidArgument
      else case GetDescriptorHeapPtr ty heap_index rm of
             Inl e \<Rightarrow> Inl e
           | Inr None \<Rightarrow> Inl InvalidArgument
           | Inr (Some heap) \<Rightarrow> Inr heap)"

text \<open>
  \<^verbatim>\<open>ForEachDescriptorHeap\<close>: the callback \<^verbatim>\<open>process_heap\<close> is modelled by what it does to the
  state captured by its caller, of type \<open>'a\<close>. The inner loop runs over one bucket, the outer
  one over the heap types; the first empty pointer or heap of another type throws.
\<close>

fun ForEach_in_bucket ::
  "'t DescriptorHeap_Type \<Rightarrow> ('t DescriptorHeap \<Rightarrow> 'a \<Rightarrow> 'a) \<Rightarrow> 't DescriptorHeap option list
    \<Rightarrow> 'a \<Rightarrow> (error + unit) \<times> 'a" where
  "ForEach_in_bucket desc_heaps_type process_heap [] acc = (Inr (), acc)"
| "ForEach_in_bucket desc_heaps_type process_heap (None # heaps) acc = (Inl LogicError, acc)"
| "ForEach_in_bucket desc_heaps_type process_heap (Some heap # heaps) acc =
     (if type (GetSettings heap) \<noteq> desc_heaps_type then (Inl LogicError, acc)
      else ForEach_in_bucket desc_heaps_type process_heap heaps (process_heap heap acc))"

fun ForEachDescriptorHeap ::
  "'t list \<Rightarrow> ('t DescriptorHeap \<Rightarrow> 'a \<Rightarrow> 'a) \<Rightarrow> 't ResourceManager \<Rightarrow> 'a \<Rightarrow> (error + unit) \<times> 'a" where
  "ForEachDescriptorHeap [] process_heap rm acc = (Inr (), acc)"
| "ForEachDescriptorHeap (t # ts) process_heap rm acc =
     (case ForEach_in_bucket (HeapType t) process_heap (m_descriptor_heap_types rm t) acc of
        (Inl e, acc') \<Rightarrow> (Inl e, acc')
      | (Inr u, acc') \<Rightarrow> ForEachDescriptorHeap ts process_heap rm acc')"

text \<open>The consistency that \<^verbatim>\<open>ForEachDescriptorHeap\<close> checks: every pointer stored in the bucket
  of a heap type is set, and its heap reports that type.\<close>

definition heap_of_type :: "'t \<Rightarrow> 't DescriptorHeap option \<Rightarrow> bool" where
  "heap_of_type t sp_desc_heap =
     (case sp_desc_heap of None \<Rightarrow> False | Some heap \<Rightarrow> type (GetSettings heap) = HeapType t)"

definition heaps_typed :: "'t list \<Rightarrow> 't ResourceManager \<Rightarrow> bool" where
  "heaps_typed heap_types rm =
     list_all (\<lambda>t. list_all (heap_of_type t) (m_descriptor_heap_types rm t)) heap_types"

text \<open>The number of heaps in a bucket whose shader-visible flag has the given value.\<close>

fun count_heaps :: "bool \<Rightarrow> 't DescriptorHeap option list \<Rightarrow> nat" where
  "count_heaps visible [] = 0"
| "count_heaps visible (None # heaps) = count_heaps visible heaps"
| "count_heaps visible (Some heap # heaps) =
     (if shader_visible (GetSettings heap) = visible then 1 else 0) + count_heaps visible heaps"

definition heap_deferred :: "bool \<Rightarrow> 't DescriptorHeap option \<Rightarrow> bool" where
  "heap_deferred flag sp_desc_heap =
     (case sp_desc_heap of None \<Rightarrow> False
      | Some heap \<Rightarrow> deferred_allocation (GetSettings heap) = flag)"

section \<open>Render pass (RenderPassBase.cpp)\<close>

text \<open>
  Modelled from the spec: the attachment and settings structures are declared in the
  render-pass header, outside the given sources; their fields are those that the equality
  operators of the source compare. A texture is named by a number and \<open>None\<close> is the empty
  pointer, so that comparing two pointers compares the names. Load and store actions are
  the ones the spec lists. Clear colour and clear depth are single-precision floating-point
  values, kept as their 32 bits, and the clear colour is compared component by component.
\<close>

text \<open>
  The operator \<^verbatim>\<open>==\<close> on two floats, from their bits: a NaN (exponent bits all set, fraction
  not zero) is equal to nothing, not even to itself; the two zeros are equal; otherwise the
  floats are equal when their bits are.
\<close>

definition float_is_nan :: "32 word \<Rightarrow> bool" where
  "float_is_nan x \<longleftrightarrow> x AND 0x7F800000 = 0x7F800000 \<and> x AND 0x007FFFFF \<noteq> 0"

definition float_is_zero :: "32 word \<Rightarrow> bool" where
  "float_is_zero x \<longleftrightarrow> x AND 0x7FFFFFFF = 0"

definition float_eq :: "32 word \<Rightarrow> 32 word \<Rightarrow> bool" where
  "float_eq x y \<longleftrightarrow>
     \<not> float_is_nan x \<and> \<not> float_is_nan y \<and> (x = y \<or> float_is_zero x \<and> float_is_zero y)"

fun Color4f_eq :: "32 word \<times> 32 word \<times> 32 word \<times> 32 word
    \<Rightarrow> 32 word \<times> 32 word \<times> 32 word \<times> 32 word \<Rightarrow> bool" where
  "Color4f_eq (r, g, b, a) (r', g', b', a') \<longleftrightarrow>
     float_eq r r' \<and> float_eq g g' \<and> float_eq b b' \<and> float_eq a a'"

datatype LoadAction = LoadAction_DontCare | LoadAction_Load | LoadAction_Clear

datatype StoreAction = StoreAction_DontCare | StoreAction_Store

record Attachment =
  sp_texture :: "nat option"
  level :: "32 word"
  slice :: "32 word"
  depth_plane :: "32 word"
  load_action :: LoadAction
  store_action :: StoreAction

record ColorAttachment = Attachment +
  clear_color :: "32 word \<times> 32 word \<times> 32 word \<times> 32 word"

record DepthAttachment = Attachment +
  depth_clear_value :: "32 word"

record StencilAttachment = Attachment +
  stencil_clear_value :: "8 word"

record RenderPass_Settings =
  color_attachments :: "ColorAttachment list"
  depth_attachment :: DepthAttachment
  stencil_attachment :: StencilAttachment
  shader_access_mask :: "32 word"
  is_final_pass :: bool

definition Attachment_eq :: "'a Attachment_scheme \<Rightarrow> 'b Attachment_scheme \<Rightarrow> bool" where
  "Attachment_eq a other \<longleftrightarrow>
     sp_texture a = sp_texture other \<and>
     level a = level other \<and>
     slice a = slice other \<and>
     depth_plane a = depth_plane other \<and>
     load_action a = load_action other \<and>
     store_action a = store_action other"

definition ColorAttachment_eq :: "ColorAttachment \<Rightarrow> ColorAttachment \<Rightarrow> bool" where
  "ColorAttachment_eq a other \<longleftrightarrow>
     Attachment_eq a other \<and> Color4f_eq (clear_color a) (clear_color other)"

definition DepthAttachment_eq :: "DepthAttachment \<Rightarrow> DepthAttachment \<Rightarrow> bool" where
  "DepthAttachment_eq a other \<longleftrightarrow>
     Attachment_eq a other \<and> float_eq (depth_clear_value a) (depth_clear_value other)"

definition StencilAttachment_eq :: "StencilAttachment \<Rightarrow> StencilAttachment \<Rightarrow> bool" where
  "StencilAttachment_eq a other \<longleftrightarrow>
     Attachment_eq a other \<and> stencil_clear_value a = stencil_clear_value other"

text \<open>\<^verbatim>\<open>Settings::operator==\<close>; two vectors are equal when they have the same length and equal
  elements at every position.\<close>

definition Settings_eq :: "RenderPass_Settings \<Rightarrow> RenderPass_Settings \<Rightarrow> bool" where
  "Settings_eq a other \<longleftrightarrow>
     list_all2 ColorAttachment_eq (color_attachments a) (color_attachments other) \<and>
     DepthAttachment_eq (depth_attachment a) (depth_attachment other) \<and>
     StencilAttachment_eq (stencil_attachment a) (stencil_attachment other) \<and>
     shader_access_mask a = shader_access_mask other \<and>
     is_final_pass a = is_final_pass other"

text \<open>
  Modelled from the spec: the resource states, the barrier and \<^verbatim>\<open>ResourceBase::SetState\<close> are
  outside the given sources. The states are those the spec names. A barrier is the aggregate
  \<^verbatim>\<open>{ type, resource, state_before, state_after }\<close> that
  \<^verbatim>\<open>CommandListBase::SetResourceTransitionBarriers\<close> pushes onto a \<^verbatim>\<open>ResourceBase::Barriers\<close>
  container. The state of every texture is kept in a store indexed by the texture's name.
  \<^verbatim>\<open>SetState\<close> is the single operation that changes a state: it returns whether the state
  changed and, when it did, appends the transition to the barriers it was given, creating the
  container when the pointer is empty.
\<close>

datatype ResourceBase_State = Common | RenderTarget | DepthWrite | Present

datatype Barrier_Type = Transition

record Barrier =
  barrier_type :: Barrier_Type
  resource :: nat
  state_before :: ResourceBase_State
  state_after :: ResourceBase_State

type_synonym Textures = "nat \<Rightarrow> ResourceBase_State"

definition SetState ::
  "nat \<Rightarrow> ResourceBase_State \<Rightarrow> Textures \<Rightarrow> Barrier list option
    \<Rightarrow> bool \<times> Textures \<times> Barrier list option" where
  "SetState texture new_state textures out_barriers =
     (if textures texture = new_state then (False, textures, out_barriers)
      else (True, textures(texture := new_state),
            Some ((case out_barriers of None \<Rightarrow> [] | Some barriers \<Rightarrow> barriers) @
                  [\<lparr> barrier_type = Transition, resource = texture,
                     state_before = textures texture, state_after = new_state \<rparr>])))"



text \<open>The members of \<^verbatim>\<open>RenderPassBase\<close>; the three memoised texture collections and the two
  barrier sets are mutable caches.\<close>

record RenderPassBase =
  m_settings :: RenderPass_Settings
  m_is_begun :: bool
  m_non_frame_buffer_attachment_textures :: "nat list"
  m_color_attachment_textures :: "nat list"
  m_p_depth_attachment_texture :: "nat option"
  m_sp_begin_transition_barriers :: "Barrier list option"
  m_sp_end_transition_barriers :: "Barrier list option"

text \<open>The loop of \<^verbatim>\<open>GetColorAttachmentTextures\<close>: each texture is pushed onto the member as
  it is met, and an attachment without texture throws from inside the loop.\<close>

fun push_color_attachment_textures ::
  "ColorAttachment list \<Rightarrow> nat list \<Rightarrow> (error + unit) \<times> nat list" where
  "push_color_attachment_textures [] textures = (Inr (), textures)"
| "push_color_attachment_textures (color_attach # rest) textures =
     (case sp_texture color_attach of
        None \<Rightarrow> (Inl InvalidArgument, textures)
      | Some texture \<Rightarrow> push_color_attachment_textures rest (textures @ [texture]))"

definition GetColorAttachmentTextures ::
  "RenderPassBase \<Rightarrow> (error + nat list) \<times> RenderPassBase" where
  "GetColorAttachmentTextures pass =
     (if m_color_attachment_textures pass \<noteq> [] then (Inr (m_color_attachment_textures pass), pass)
      else
        case push_color_attachment_textures (color_attachments (m_settings pass))
               (m_color_attachment_textures pass) of
          (Inl e, textures) \<Rightarrow> (Inl e, pass\<lparr> m_color_attachment_textures := textures \<rparr>)
        | (Inr u, textures) \<Rightarrow> (Inr textures, pass\<lparr> m_color_attachment_textures := textures \<rparr>))"


text \<open>\<^verbatim>\<open>InitAttachmentStates\<close>: colour textures still in the Common state are moved to Present;
  the barriers go to a local container that is dropped.\<close>

fun InitAttachmentStates_loop :: "nat list \<Rightarrow> Textures \<Rightarrow> Barrier list option \<Rightarrow> Textures" where
  "InitAttachmentStates_loop [] textures sp_transition_barriers = textures"
| "InitAttachmentStates_loop (color_texture # rest) textures sp_transition_barriers =
     (if textures color_texture = Common
      then (case SetState color_texture Present textures sp_transition_barriers of
              (changed, textures', barriers') \<Rightarrow> InitAttachmentStates_loop rest textures' barriers')
      else InitAttachmentStates_loop rest textures sp_transition_barriers)"

definition InitAttachmentStates ::
  "RenderPassBase \<Rightarrow> Textures \<Rightarrow> (error + unit) \<times> RenderPassBase \<times> Textures" where
  "InitAttachmentStates pass textures =
     (case GetColorAttachmentTextures pass of
        (Inl e, pass') \<Rightarrow> (Inl e, pass', textures)
      | (Inr color_textures, pass') \<Rightarrow>
          (Inr (), pass', InitAttachmentStates_loop color_textures textures None))"


definition Update ::
  "RenderPass_Settings \<Rightarrow> RenderPassBase \<Rightarrow> Textures
    \<Rightarrow> (error + bool) \<times> RenderPassBase \<times> Textures" where
  "Update settings pass textures =
     (if Settings_eq (m_settings pass) settings then (Inr False, pass, textures)
      else
        case InitAttachmentStates
               (pass\<lparr> m_settings := settings,
                      m_non_frame_buffer_attachment_textures := [],
                      m_color_attachment_textures := [],
                      m_p_depth_attachment_texture := None,
                      m_sp_begin_transition_barriers := None,
                      m_sp_end_transition_barriers := None \<rparr>) textures of
          (Inl e, pass', textures') \<Rightarrow> (Inl e, pass', textures')
        | (Inr u, pass', textures') \<Rightarrow> (Inr True, pass', textures'))"





text \<open>The textures of a list of attachments, in order, leaving out the empty pointers.\<close>

fun attachment_textures :: "ColorAttachment list \<Rightarrow> nat list" where
  "attachment_textures [] = []"
| "attachment_textures (a # rest) =
     (case sp_texture a of None \<Rightarrow> attachment_textures rest
      | Some texture \<Rightarrow> texture # attachment_textures rest)"

text \<open>Settings none of whose floating-point clear values is a NaN.\<close>

fun Color4f_nan_free :: "32 word \<times> 32 word \<times> 32 word \<times> 32 word \<Rightarrow> bool" where
  "Color4f_nan_free (r, g, b, a) \<longleftrightarrow>
     \<not> float_is_nan r \<and> \<not> float_is_nan g \<and> \<not> float_is_nan b \<and> \<not> float_is_nan a"

definition settings_nan_free :: "RenderPass_Settings \<Rightarrow> bool" where
  "settings_nan_free settings \<longleftrightarrow>
     list_all (\<lambda>color_attach. Color4f_nan_free (clear_color color_attach))
       (color_attachments settings)
     \<and> \<not> float_is_nan (depth_clear_value (depth_attachment settings))"

text \<open>The texture states after the attachment states have been initialised for a list of
  colour textures: those in the Common state are in the Present state.\<close>

definition common_to_present :: "nat list \<Rightarrow> Textures \<Rightarrow> Textures" where
  "common_to_present color_textures textures =
     (\<lambda>texture. if texture \<in> set color_textures \<and> textures texture = Common then Present
                else textures texture)"


text \<open>
  The settings of the scenarios below: a colour attachment with load action Clear and store
  action Store on a given texture pointer, clearing to zeros, and a final pass with the
  given colour attachments, neither depth nor stencil texture, and the clear depth 1.0.
\<close>

definition clear_store_attachment :: "nat option \<Rightarrow> ColorAttachment" where
  "clear_store_attachment texture =
     \<lparr> sp_texture = texture, level = 0, slice = 0, depth_plane = 0,
       load_action = LoadAction_Clear, store_action = StoreAction_Store,
       clear_color = (0, 0, 0, 0) \<rparr>"

definition color_only_settings :: "ColorAttachment list \<Rightarrow> RenderPass_Settings" where
  "color_only_settings attachments =
     \<lparr> color_attachments = attachments,
       depth_attachment =
         \<lparr> sp_texture = None, level = 0, slice = 0, depth_plane = 0,
           load_action = LoadAction_DontCare, store_action = StoreAction_DontCare,
           depth_clear_value = 0x3F800000 \<rparr>,
       stencil_attachment =
         \<lparr> sp_texture = None, level = 0, slice = 0, depth_plane = 0,
           load_action = LoadAction_DontCare, store_action = StoreAction_DontCare,
           stencil_clear_value = 0 \<rparr>,
       shader_access_mask = 0, is_final_pass = True \<rparr>"

section \<open>Command list: the state machine\<close>

lemma Commit_Pending:
  "m_state cl = Pending \<Longrightarrow>
   Commit f cl = (Inr (), cl\<lparr> m_committed_frame_index := f, m_state := Committed,
                              m_open_debug_groups := tl (m_open_debug_groups cl) \<rparr>)"
  by (cases "m_open_debug_groups cl") (simp_all add: Commit_def PopDebugGroup_def Let_def)

lemma Commit_not_Pending:
  "m_state cl \<noteq> Pending \<Longrightarrow> Commit f cl = (Inl LogicError, cl)"
  by (simp add: Commit_def)

text \<open>
  C1. \<open>Commit\<close> succeeds exactly in the Pending state, \<open>Execute\<close> succeeds only in the
  Committed state and \<open>Complete\<close> only in the Executing state. In the Pending state
  \<open>Execute\<close> and \<open>Complete\<close> throw a logic error; a second \<open>Commit\<close> right after a successful
  one throws a logic error. Every rejected call throws a logic error and returns the list
  exactly as it was: state, committed frame index, debug-group stack and all other members.
\<close>

theorem state_machine_legality:
  "(fst (Commit c cl) = Inr () \<longleftrightarrow> m_state cl = Pending)
   \<and> (fst (Execute f cl) = Inr () \<longrightarrow> m_state cl = Committed)
   \<and> (fst (Complete f cl) = Inr () \<longrightarrow> m_state cl = Executing)
   \<and> (m_state cl = Pending \<longrightarrow>
        Execute f cl = (Inl LogicError, cl) \<and> Complete f cl = (Inl LogicError, cl))
   \<and> (fst (Commit c cl) = Inr () \<longrightarrow>
        Commit c' (snd (Commit c cl)) = (Inl LogicError, snd (Commit c cl)))
   \<and> (fst (Commit c cl) \<noteq> Inr () \<longrightarrow> Commit c cl = (Inl LogicError, cl))
   \<and> (fst (Execute f cl) \<noteq> Inr () \<longrightarrow> Execute f cl = (Inl LogicError, cl))
   \<and> (fst (Complete f cl) \<noteq> Inr () \<longrightarrow> Complete f cl = (Inl LogicError, cl))"
proof -
  have commit: "fst (Commit c cl) = Inr () \<longleftrightarrow> m_state cl = Pending"
    by (cases "m_state cl = Pending") (simp_all add: Commit_Pending Commit_not_Pending)
  have twice: "fst (Commit c cl) = Inr () \<longrightarrow>
        Commit c' (snd (Commit c cl)) = (Inl LogicError, snd (Commit c cl))"
    by (cases "m_state cl = Pending") (simp_all add: Commit_Pending Commit_not_Pending)
  have rej: "fst (Commit c cl) \<noteq> Inr () \<longrightarrow> Commit c cl = (Inl LogicError, cl)"
    by (cases "m_state cl = Pending") (simp_all add: Commit_Pending Commit_not_Pending)
  have ex: "fst (Execute f cl) = Inr () \<longrightarrow> m_state cl = Committed"
    "fst (Execute f cl) \<noteq> Inr () \<longrightarrow> Execute f cl = (Inl LogicError, cl)"
    by (simp_all add: Execute_def)
  have co: "fst (Complete f cl) = Inr () \<longrightarrow> m_state cl = Executing"
    "fst (Complete f cl) \<noteq> Inr () \<longrightarrow> Complete f cl = (Inl LogicError, cl)"
    by (simp_all add: Complete_def)
  have pend: "m_state cl = Pending \<longrightarrow>
        Execute f cl = (Inl LogicError, cl) \<and> Complete f cl = (Inl LogicError, cl)"
    by (simp add: Execute_def Complete_def)
  from commit twice rej ex co pend show ?thesis by blast
qed

text \<open>A new list: \<open>Execute\<close> and \<open>Complete\<close> are rejected and change nothing, \<open>Commit\<close> is
  accepted, and the second \<open>Commit\<close> is rejected.\<close>

theorem state_machine_legality_witness:
  "m_state (CommandListBase_init 0) = Pending
   \<and> fst (Commit 7 (CommandListBase_init 0)) = Inr ()
   \<and> Execute 7 (CommandListBase_init 0) = (Inl LogicError, CommandListBase_init 0)
   \<and> Complete 7 (CommandListBase_init 0) = (Inl LogicError, CommandListBase_init 0)
   \<and> Commit 8 (snd (Commit 7 (CommandListBase_init 0)))
       = (Inl LogicError, snd (Commit 7 (CommandListBase_init 0)))"
proof -
  have pending: "m_state (CommandListBase_init 0) = Pending"
    by (simp add: CommandListBase_init_def)
  from pending
    state_machine_legality [where c = 7 and f = 7 and c' = 8 and cl = "CommandListBase_init 0"]
  show ?thesis by blast
qed

text \<open>
  C2. \<open>Execute f\<close> succeeds exactly when the list is Committed and \<open>f\<close> is its committed frame
  index, \<open>Complete f\<close> exactly when the list is Executing and \<open>f\<close> is its committed frame index;
  every other call throws a logic error and changes nothing. Neither of them writes the
  committed frame index, which a successful \<open>Commit\<close> sets to the current frame index: after
  it, \<open>Execute f\<close> succeeds exactly for that index, and so does \<open>Complete f\<close> after the
  \<open>Execute\<close>.
\<close>

theorem frame_index_coherence:
  "(fst (Execute f cl) = Inr () \<longleftrightarrow> m_state cl = Committed \<and> m_committed_frame_index cl = f)
   \<and> (fst (Complete f cl) = Inr () \<longleftrightarrow> m_state cl = Executing \<and> m_committed_frame_index cl = f)
   \<and> (fst (Execute f cl) \<noteq> Inr () \<longrightarrow> Execute f cl = (Inl LogicError, cl))
   \<and> (fst (Complete f cl) \<noteq> Inr () \<longrightarrow> Complete f cl = (Inl LogicError, cl))
   \<and> m_committed_frame_index (snd (Execute f cl)) = m_committed_frame_index cl
   \<and> m_committed_frame_index (snd (Complete f cl)) = m_committed_frame_index cl
   \<and> (fst (Commit c cl) = Inr () \<longrightarrow>
        m_committed_frame_index (snd (Commit c cl)) = c
        \<and> (fst (Execute f (snd (Commit c cl))) = Inr () \<longleftrightarrow> f = c)
        \<and> (fst (Complete f (snd (Execute c (snd (Commit c cl))))) = Inr () \<longleftrightarrow> f = c))"
proof -
  have ex: "fst (Execute f cl) = Inr () \<longleftrightarrow> m_state cl = Committed \<and> m_committed_frame_index cl = f"
    "fst (Execute f cl) \<noteq> Inr () \<longrightarrow> Execute f cl = (Inl LogicError, cl)"
    "m_committed_frame_index (snd (Execute f cl)) = m_committed_frame_index cl"
    by (simp_all add: Execute_def)
  have co: "fst (Complete f cl) = Inr () \<longleftrightarrow> m_state cl = Executing \<and> m_committed_frame_index cl = f"
    "fst (Complete f cl) \<noteq> Inr () \<longrightarrow> Complete f cl = (Inl LogicError, cl)"
    "m_committed_frame_index (snd (Complete f cl)) = m_committed_frame_index cl"
    by (simp_all add: Complete_def)
  have run: "fst (Commit c cl) = Inr () \<longrightarrow>
        m_committed_frame_index (snd (Commit c cl)) = c
        \<and> (fst (Execute f (snd (Commit c cl))) = Inr () \<longleftrightarrow> f = c)
        \<and> (fst (Complete f (snd (Execute c (snd (Commit c cl))))) = Inr () \<longleftrightarrow> f = c)"
  proof (cases "m_state cl = Pending")
    case True
    then show ?thesis
      by (auto simp add: Commit_Pending Execute_def Complete_def)
  next
    case False
    then show ?thesis by (simp add: Commit_not_Pending)
  qed
  from ex co run show ?thesis by blast
qed

text \<open>A list committed on frame 4 executes on frame 4 and not on frame 5, and once executing on
  frame 4 it does not complete on frame 5.\<close>

theorem frame_index_coherence_witness:
  "fst (Commit 4 (CommandListBase_init 0)) = Inr ()
   \<and> fst (Execute 4 (snd (Commit 4 (CommandListBase_init 0)))) = Inr ()
   \<and> Execute 5 (snd (Commit 4 (CommandListBase_init 0)))
       = (Inl LogicError, snd (Commit 4 (CommandListBase_init 0)))
   \<and> fst (Complete 5 (snd (Execute 4 (snd (Commit 4 (CommandListBase_init 0)))))) \<noteq> Inr ()"
  using frame_index_coherence [where f = 5 and c = 4 and cl = "CommandListBase_init 0"]
    frame_index_coherence [where f = 4 and c = 4 and cl = "CommandListBase_init 0"]
    frame_index_coherence [where f = 5 and cl = "snd (Commit 4 (CommandListBase_init 0))"]
  by (simp add: CommandListBase_init_def Commit_def)

section \<open>Command list: reset and commit\<close>

lemma Reset_Pending:
  "m_state cl = Pending \<Longrightarrow>
   Reset g cl =
     (Inr (),
      case m_open_debug_groups cl of
        [] \<Rightarrow> if g = [] then cl else PushDebugGroup g cl
      | open_top # rest \<Rightarrow>
          if open_top = g then cl
          else if g = [] then cl\<lparr> m_open_debug_groups := rest \<rparr>
          else PushDebugGroup g (cl\<lparr> m_open_debug_groups := rest \<rparr>))"
  by (cases "m_open_debug_groups cl") (simp_all add: Reset_def Let_def PopDebugGroup_def)

text \<open>
  C3. \<open>Reset\<close> outside the Pending state throws a logic error and changes nothing. In the
  Pending state it succeeds and the list stays Pending; the open group on top of the stack
  is closed when its name differs from the requested one, and the requested group is then
  opened unless its name is empty; with the same name on top the stack stays as it is. The
  list comes back with a fresh command state, in which the program-bindings pointer is
  cleared. The check and the debug groups are the work of \<open>Reset\<close> of the base class, which
  leaves the command state alone; the fresh command state is the work of
  \<open>ResetCommandState\<close>, which touches neither the state nor the debug groups.
\<close>

theorem Reset_debug_group_and_command_state:
  "(m_state cl \<noteq> Pending \<longrightarrow> Reset_override g cl = (Inl LogicError, cl))
   \<and> (m_state cl = Pending \<longrightarrow>
         fst (Reset_override g cl) = Inr ()
         \<and> m_state (snd (Reset_override g cl)) = Pending
         \<and> m_open_debug_groups (snd (Reset_override g cl)) =
             (case m_open_debug_groups cl of
                [] \<Rightarrow> if g = [] then [] else [g]
              | open_top # rest \<Rightarrow>
                  if open_top = g then open_top # rest else if g = [] then rest else g # rest)
         \<and> m_sp_command_state (snd (Reset_override g cl)) = CommandState_Create (m_type cl)
         \<and> p_program_bindings (m_sp_command_state (snd (Reset_override g cl))) = None
         \<and> snd (Reset_override g cl) = ResetCommandState (snd (Reset g cl))
         \<and> m_sp_command_state (snd (Reset g cl)) = m_sp_command_state cl)
   \<and> p_program_bindings (m_sp_command_state (ResetCommandState cl)) = None
   \<and> m_state (ResetCommandState cl) = m_state cl
   \<and> m_open_debug_groups (ResetCommandState cl) = m_open_debug_groups cl"
proof -
  have bad: "m_state cl \<noteq> Pending \<longrightarrow> Reset_override g cl = (Inl LogicError, cl)"
    by (simp add: Reset_override_def Reset_def)
  have ok: "m_state cl = Pending \<longrightarrow>
         fst (Reset_override g cl) = Inr ()
         \<and> m_state (snd (Reset_override g cl)) = Pending
         \<and> m_open_debug_groups (snd (Reset_override g cl)) =
             (case m_open_debug_groups cl of
                [] \<Rightarrow> if g = [] then [] else [g]
              | open_top # rest \<Rightarrow>
                  if open_top = g then open_top # rest else if g = [] then rest else g # rest)
         \<and> m_sp_command_state (snd (Reset_override g cl)) = CommandState_Create (m_type cl)
         \<and> p_program_bindings (m_sp_command_state (snd (Reset_override g cl))) = None
         \<and> snd (Reset_override g cl) = ResetCommandState (snd (Reset g cl))
         \<and> m_sp_command_state (snd (Reset g cl)) = m_sp_command_state cl"
    by (cases "m_open_debug_groups cl")
       (simp_all add: Reset_override_def Reset_Pending ResetCommandState_def
          CommandState_Create_def PushDebugGroup_def PushOpenDebugGroup_def)
  have rcs: "p_program_bindings (m_sp_command_state (ResetCommandState cl)) = None"
    "m_state (ResetCommandState cl) = m_state cl"
    "m_open_debug_groups (ResetCommandState cl) = m_open_debug_groups cl"
    by (simp_all add: ResetCommandState_def CommandState_Create_def)
  from bad ok rcs show ?thesis by blast
qed

text \<open>A new list on which program bindings were set is reset with the group \<open>frame\<close>: the
  group is open and the pointer is cleared. A committed list is not reset.\<close>

theorem Reset_debug_group_and_command_state_witness:
  "m_state (snd (SetProgramBindings 1 (CommandListBase_init 0))) = Pending
   \<and> p_program_bindings (m_sp_command_state (snd (SetProgramBindings 1 (CommandListBase_init 0))))
       = Some 1
   \<and> fst (Reset_override ''frame'' (snd (SetProgramBindings 1 (CommandListBase_init 0)))) = Inr ()
   \<and> m_open_debug_groups
        (snd (Reset_override ''frame'' (snd (SetProgramBindings 1 (CommandListBase_init 0)))))
       = [''frame'']
   \<and> p_program_bindings (m_sp_command_state
        (snd (Reset_override ''frame'' (snd (SetProgramBindings 1 (CommandListBase_init 0))))))
       = None
   \<and> m_state (snd (Commit 0 (CommandListBase_init 0))) \<noteq> Pending
   \<and> Reset_override ''frame'' (snd (Commit 0 (CommandListBase_init 0)))
       = (Inl LogicError, snd (Commit 0 (CommandListBase_init 0)))"
proof -
  let ?bound = "snd (SetProgramBindings 1 (CommandListBase_init 0))"
  let ?committed = "snd (Commit 0 (CommandListBase_init 0))"
  have pending: "m_state ?bound = Pending"
    and bindings: "p_program_bindings (m_sp_command_state ?bound) = Some 1"
    and groups: "m_open_debug_groups ?bound = []"
    by (simp_all add: CommandListBase_init_def SetProgramBindings_def)
  have committed: "m_state ?committed \<noteq> Pending"
    by (simp add: CommandListBase_init_def Commit_def)
  from pending Reset_debug_group_and_command_state [where cl = ?bound and g = "''frame''"]
  have ok: "fst (Reset_override ''frame'' ?bound) = Inr ()
    \<and> m_open_debug_groups (snd (Reset_override ''frame'' ?bound)) =
        (case m_open_debug_groups ?bound of
           [] \<Rightarrow> if ''frame'' = [] then [] else [''frame'']
         | open_top # rest \<Rightarrow>
             if open_top = ''frame'' then open_top # rest
             else if ''frame'' = [] then rest else ''frame'' # rest)
    \<and> p_program_bindings (m_sp_command_state (snd (Reset_override ''frame'' ?bound))) = None"
    by blast
  from committed Reset_debug_group_and_command_state [where cl = ?committed and g = "''frame''"]
  have rejected: "Reset_override ''frame'' ?committed = (Inl LogicError, ?committed)"
    by blast
  from ok have opened: "m_open_debug_groups (snd (Reset_override ''frame'' ?bound)) = [''frame'']"
    unfolding groups by simp
  from pending bindings ok opened committed rejected show ?thesis by blast
qed

text \<open>
  C4, as the code has it. In the Pending state \<open>Commit\<close> succeeds, records the current frame
  index as the committed frame index, moves the list to the Committed state and closes one
  debug group, the one on top of the stack: the groups below it stay open, so no group is
  left open when at most one was open before.
\<close>

theorem Commit_pops_one_group:
  "m_state cl = Pending \<Longrightarrow>
     fst (Commit c cl) = Inr ()
     \<and> m_committed_frame_index (snd (Commit c cl)) = c
     \<and> m_state (snd (Commit c cl)) = Committed
     \<and> m_open_debug_groups (snd (Commit c cl)) = tl (m_open_debug_groups cl)
     \<and> (length (m_open_debug_groups cl) \<le> 1 \<longrightarrow> m_open_debug_groups (snd (Commit c cl)) = [])"
  by (cases "m_open_debug_groups cl") (simp_all add: Commit_Pending)

text \<open>A list with the one group \<open>frame\<close> open is committed on frame 2.\<close>

theorem Commit_pops_one_group_witness:
  "m_state (PushDebugGroup ''frame'' (CommandListBase_init 0)) = Pending
   \<and> length (m_open_debug_groups (PushDebugGroup ''frame'' (CommandListBase_init 0))) \<le> 1
   \<and> m_state (snd (Commit 2 (PushDebugGroup ''frame'' (CommandListBase_init 0)))) = Committed
   \<and> m_open_debug_groups (snd (Commit 2 (PushDebugGroup ''frame'' (CommandListBase_init 0)))) = []"
  using Commit_pops_one_group [of "PushDebugGroup ''frame'' (CommandListBase_init 0)" 2]
  by (simp add: CommandListBase_init_def PushDebugGroup_def PushOpenDebugGroup_def)

text \<open>C4 as stated fails: a new list is reset with the group \<open>frame\<close>, the group \<open>draw\<close> is
  pushed inside it, and after \<open>Commit\<close> the group \<open>frame\<close> is still open.\<close>

theorem Commit_leaves_outer_group_open:
  "fst (Reset ''frame'' (CommandListBase_init 0)) = Inr ()
   \<and> fst (Commit 2 (PushDebugGroup ''draw'' (snd (Reset ''frame'' (CommandListBase_init 0))))) = Inr ()
   \<and> m_open_debug_groups
        (snd (Commit 2 (PushDebugGroup ''draw'' (snd (Reset ''frame'' (CommandListBase_init 0))))))
       = [''frame'']"
  by (simp add: CommandListBase_init_def Reset_def Commit_def PushDebugGroup_def
      PushOpenDebugGroup_def PopDebugGroup_def Let_def)

section \<open>Command list: debug groups\<close>

lemma groups_push_all:
  "m_open_debug_groups (push_all names cl) = rev names @ m_open_debug_groups cl"
  by (induction names arbitrary: cl) (simp_all add: PushDebugGroup_def PushOpenDebugGroup_def)

lemma pop_times_ok:
  "n \<le> length (m_open_debug_groups cl) \<Longrightarrow>
   pop_times n cl = (Inr (), cl\<lparr> m_open_debug_groups := drop n (m_open_debug_groups cl) \<rparr>)"
proof (induction n arbitrary: cl)
  case 0
  then show ?case by simp
next
  case (Suc n)
  then obtain g gs where gs: "m_open_debug_groups cl = g # gs"
    by (cases "m_open_debug_groups cl") auto
  with Suc show ?case by (simp add: PopDebugGroup_def)
qed

lemma pop_times_underflow:
  "length (m_open_debug_groups cl) < n \<Longrightarrow>
   pop_times n cl = (Inl UnderflowError, cl\<lparr> m_open_debug_groups := [] \<rparr>)"
proof (induction n arbitrary: cl)
  case 0
  then show ?case by simp
next
  case (Suc n)
  show ?case
  proof (cases "m_open_debug_groups cl")
    case Nil
    then show ?thesis by (simp add: PopDebugGroup_def)
  next
    case (Cons g gs)
    with Suc show ?thesis by (simp add: PopDebugGroup_def)
  qed
qed

text \<open>
  C5. On a list with no open debug group, pushing \<open>A\<close> and \<open>B\<close> and popping twice succeeds and
  leaves the stack empty, and a third pop throws the underflow error. Popping the empty stack
  throws the underflow error and changes nothing. In general, after pushing any names,
  popping as many times succeeds and empties the stack, and one more pop throws the underflow
  error.
\<close>

theorem debug_group_balance:
  "m_open_debug_groups cl = [] \<Longrightarrow>
     m_open_debug_groups (PushDebugGroup ''B'' (PushDebugGroup ''A'' cl)) = [''B'', ''A'']
     \<and> pop_times 2 (PushDebugGroup ''B'' (PushDebugGroup ''A'' cl))
         = (Inr (), (PushDebugGroup ''B'' (PushDebugGroup ''A'' cl))\<lparr> m_open_debug_groups := [] \<rparr>)
     \<and> pop_times 3 (PushDebugGroup ''B'' (PushDebugGroup ''A'' cl))
         = (Inl UnderflowError, (PushDebugGroup ''B'' (PushDebugGroup ''A'' cl))\<lparr> m_open_debug_groups := [] \<rparr>)
     \<and> PopDebugGroup cl = (Inl UnderflowError, cl)
     \<and> pop_times (length names) (push_all names cl)
         = (Inr (), (push_all names cl)\<lparr> m_open_debug_groups := [] \<rparr>)
     \<and> fst (pop_times (Suc (length names)) (push_all names cl)) = Inl UnderflowError"
proof -
  assume e: "m_open_debug_groups cl = []"
  let ?ab = "PushDebugGroup ''B'' (PushDebugGroup ''A'' cl)"
  have ab: "?ab = push_all [''A'', ''B''] cl" by simp
  have g: "m_open_debug_groups ?ab = [''B'', ''A'']"
    unfolding ab groups_push_all using e by simp
  have p2: "pop_times 2 ?ab = (Inr (), ?ab\<lparr> m_open_debug_groups := [] \<rparr>)"
    using pop_times_ok [of 2 ?ab] g by simp
  have p3: "pop_times 3 ?ab = (Inl UnderflowError, ?ab\<lparr> m_open_debug_groups := [] \<rparr>)"
    using pop_times_underflow [of ?ab 3] g by simp
  have p0: "PopDebugGroup cl = (Inl UnderflowError, cl)"
    using e by (simp add: PopDebugGroup_def)
  have gn: "m_open_debug_groups (push_all names cl) = rev names"
    using e by (simp add: groups_push_all)
  have pn: "pop_times (length names) (push_all names cl)
         = (Inr (), (push_all names cl)\<lparr> m_open_debug_groups := [] \<rparr>)"
    using pop_times_ok [of "length names" "push_all names cl"] gn by simp
  have pn1: "fst (pop_times (Suc (length names)) (push_all names cl)) = Inl UnderflowError"
    using pop_times_underflow [of "push_all names cl" "Suc (length names)"] gn by simp
  from g p2 p3 p0 pn pn1 show ?thesis by blast
qed

text \<open>The scenario on a new list.\<close>

theorem debug_group_balance_witness:
  "m_open_debug_groups (CommandListBase_init 1) = []
   \<and> fst (pop_times 2 (PushDebugGroup ''B'' (PushDebugGroup ''A'' (CommandListBase_init 1)))) = Inr ()
   \<and> m_open_debug_groups
       (snd (pop_times 2 (PushDebugGroup ''B'' (PushDebugGroup ''A'' (CommandListBase_init 1))))) = []
   \<and> fst (pop_times 3 (PushDebugGroup ''B'' (PushDebugGroup ''A'' (CommandListBase_init 1))))
       = Inl UnderflowError"
  using debug_group_balance [of "CommandListBase_init 1" "[]"]
  by (simp add: CommandListBase_init_def)


section \<open>Resource manager: the heaps of Initialize\<close>

lemma Initialize_loop_deferred:
  "m_deferred_heap_allocation (Initialize_loop sv settings ts rm) = m_deferred_heap_allocation rm"
  by (induction ts arbitrary: rm) (simp_all add: Initialize_heap_type_def Let_def)

lemma Initialize_loop_other:
  "t \<notin> set ts \<Longrightarrow>
   m_descriptor_heap_types (Initialize_loop sv settings ts rm) t = m_descriptor_heap_types rm t"
  by (induction ts arbitrary: rm) (simp_all add: Initialize_heap_type_def Let_def)

lemma Initialize_loop_bucket:
  "t \<in> set ts \<Longrightarrow>
   m_descriptor_heap_types (Initialize_loop sv settings ts rm) t =
     Some (DescriptorHeap_Create
        \<lparr> type = HeapType t, size' = default_heap_sizes settings t,
          deferred_allocation = m_deferred_heap_allocation rm, shader_visible = False \<rparr>)
     # (if sv (HeapType t)
        then [Some (DescriptorHeap_Create
                \<lparr> type = HeapType t, size' = shader_visible_heap_sizes settings t,
                  deferred_allocation = m_deferred_heap_allocation rm, shader_visible = True \<rparr>)]
        else [])"
proof (induction ts arbitrary: rm)
  case Nil
  then show ?case by simp
next
  case (Cons a ts)
  show ?case
  proof (cases "t \<in> set ts")
    case True
    from Cons.IH [OF True, of "Initialize_heap_type sv settings a rm"]
    show ?thesis by (simp add: Initialize_heap_type_def Let_def)
  next
    case False
    with Cons.prems have "a = t" by simp
    with False show ?thesis
      by (simp add: Initialize_loop_other Initialize_heap_type_def Let_def)
  qed
qed

text \<open>
  C6. After \<open>Initialize\<close>, the bucket of every heap type of the enumeration holds the CPU-only
  heap of that type, sized by \<open>default_heap_sizes\<close>, followed by the shader-visible heap of that
  type, sized by \<open>shader_visible_heap_sizes\<close>, when the type is shader-visible-capable, and
  nothing else: one heap that is not shader-visible, and one or no shader-visible heap. Every
  heap in the bucket carries the deferred-allocation flag of the settings, and so does the
  manager.
\<close>

theorem Initialize_creates_heaps:
  "t \<in> set heap_types \<Longrightarrow>
     m_descriptor_heap_types (Initialize sv heap_types settings rm) t =
       Some (DescriptorHeap_Create
          \<lparr> type = HeapType t, size' = default_heap_sizes settings t,
            deferred_allocation = deferred_heap_allocation settings, shader_visible = False \<rparr>)
       # (if sv (HeapType t)
          then [Some (DescriptorHeap_Create
                  \<lparr> type = HeapType t, size' = shader_visible_heap_sizes settings t,
                    deferred_allocation = deferred_heap_allocation settings, shader_visible = True \<rparr>)]
          else [])
     \<and> count_heaps False (m_descriptor_heap_types (Initialize sv heap_types settings rm) t) = 1
     \<and> count_heaps True (m_descriptor_heap_types (Initialize sv heap_types settings rm) t)
         = (if sv (HeapType t) then 1 else 0)
     \<and> list_all (heap_deferred (deferred_heap_allocation settings))
         (m_descriptor_heap_types (Initialize sv heap_types settings rm) t)
     \<and> m_deferred_heap_allocation (Initialize sv heap_types settings rm)
         = deferred_heap_allocation settings"
proof -
  assume t: "t \<in> set heap_types"
  let ?rm0 = "rm\<lparr> m_deferred_heap_allocation := deferred_heap_allocation settings \<rparr>"
  have b: "m_descriptor_heap_types (Initialize sv heap_types settings rm) t =
       Some (DescriptorHeap_Create
          \<lparr> type = HeapType t, size' = default_heap_sizes settings t,
            deferred_allocation = deferred_heap_allocation settings, shader_visible = False \<rparr>)
       # (if sv (HeapType t)
          then [Some (DescriptorHeap_Create
                  \<lparr> type = HeapType t, size' = shader_visible_heap_sizes settings t,
                    deferred_allocation = deferred_heap_allocation settings, shader_visible = True \<rparr>)]
          else [])"
    unfolding Initialize_def using Initialize_loop_bucket [OF t, of sv settings ?rm0] by simp
  have d: "m_deferred_heap_allocation (Initialize sv heap_types settings rm)
         = deferred_heap_allocation settings"
    by (simp add: Initialize_def Initialize_loop_deferred)
  have c0: "count_heaps False (m_descriptor_heap_types (Initialize sv heap_types settings rm) t) = 1"
    unfolding b by (simp add: DescriptorHeap_Create_def)
  have c1: "count_heaps True (m_descriptor_heap_types (Initialize sv heap_types settings rm) t)
         = (if sv (HeapType t) then 1 else 0)"
    unfolding b by (simp add: DescriptorHeap_Create_def)
  have a: "list_all (heap_deferred (deferred_heap_allocation settings))
         (m_descriptor_heap_types (Initialize sv heap_types settings rm) t)"
    unfolding b by (simp add: DescriptorHeap_Create_def heap_deferred_def)
  from b d c0 c1 a show ?thesis by blast
qed

text \<open>Four heap types, of which the first two are shader-visible-capable, with deferred
  allocation: the bucket of type 1 gets both heaps, the bucket of type 2 the CPU-only heap.\<close>

theorem Initialize_creates_heaps_witness:
  "(1::nat) \<in> set [0, 1, 2, 3]
   \<and> (2::nat) \<in> set [0, 1, 2, 3]
   \<and> m_descriptor_heap_types
       (Initialize (\<lambda>ty. ty = HeapType 0 \<or> ty = HeapType 1) [0, 1, 2, 3]
          \<lparr> deferred_heap_allocation = True, default_heap_sizes = (\<lambda>t. 16),
            shader_visible_heap_sizes = (\<lambda>t. 64) \<rparr>
          \<lparr> m_deferred_heap_allocation = False, m_descriptor_heap_types = (\<lambda>t. []) \<rparr>) (1::nat)
       = [Some \<lparr> GetSettings = \<lparr> type = HeapType 1, size' = 16, deferred_allocation = True,
                                 shader_visible = False \<rparr> \<rparr>,
          Some \<lparr> GetSettings = \<lparr> type = HeapType 1, size' = 64, deferred_allocation = True,
                                 shader_visible = True \<rparr> \<rparr>]
   \<and> m_descriptor_heap_types
       (Initialize (\<lambda>ty. ty = HeapType 0 \<or> ty = HeapType 1) [0, 1, 2, 3]
          \<lparr> deferred_heap_allocation = True, default_heap_sizes = (\<lambda>t. 16),
            shader_visible_heap_sizes = (\<lambda>t. 64) \<rparr>
          \<lparr> m_deferred_heap_allocation = False, m_descriptor_heap_types = (\<lambda>t. []) \<rparr>) (2::nat)
       = [Some \<lparr> GetSettings = \<lparr> type = HeapType 2, size' = 16, deferred_allocation = True,
                                 shader_visible = False \<rparr> \<rparr>]"
proof -
  have m1: "(1::nat) \<in> set [0, 1, 2, 3]" and m2: "(2::nat) \<in> set [0, 1, 2, 3]"
    by simp_all
  from m1 m2
    Initialize_creates_heaps [OF m1, of "\<lambda>ty. ty = HeapType 0 \<or> ty = HeapType 1"
      "\<lparr> deferred_heap_allocation = True, default_heap_sizes = (\<lambda>t. 16),
            shader_visible_heap_sizes = (\<lambda>t. 64) \<rparr>"
      "\<lparr> m_deferred_heap_allocation = False, m_descriptor_heap_types = (\<lambda>t. []) \<rparr>"]
    Initialize_creates_heaps [OF m2, of "\<lambda>ty. ty = HeapType 0 \<or> ty = HeapType 1"
      "\<lparr> deferred_heap_allocation = True, default_heap_sizes = (\<lambda>t. 16),
            shader_visible_heap_sizes = (\<lambda>t. 64) \<rparr>"
      "\<lparr> m_deferred_heap_allocation = False, m_descriptor_heap_types = (\<lambda>t. []) \<rparr>"]
  show ?thesis by (simp add: DescriptorHeap_Create_def)
qed

section \<open>Resource manager: heap types\<close>

lemma ForEach_in_bucket_fst:
  "fst (ForEach_in_bucket (HeapType t) process_heap heaps acc) =
     (if list_all (heap_of_type t) heaps then Inr () else Inl LogicError)"
  by (induction "HeapType t" process_heap heaps acc rule: ForEach_in_bucket.induct)
     (simp_all add: heap_of_type_def)

lemma ForEachDescriptorHeap_fst:
  "fst (ForEachDescriptorHeap heap_types process_heap rm acc) =
     (if heaps_typed heap_types rm then Inr () else Inl LogicError)"
proof (induction heap_types arbitrary: acc)
  case Nil
  then show ?case by (simp add: heaps_typed_def)
next
  case (Cons t ts)
  obtain r acc' where b:
    "ForEach_in_bucket (HeapType t) process_heap (m_descriptor_heap_types rm t) acc = (r, acc')"
    by (cases "ForEach_in_bucket (HeapType t) process_heap (m_descriptor_heap_types rm t) acc")
  have r: "r = (if list_all (heap_of_type t) (m_descriptor_heap_types rm t)
                then Inr () else Inl LogicError)"
    using ForEach_in_bucket_fst [of t process_heap "m_descriptor_heap_types rm t" acc] b by simp
  show ?case
  proof (cases "list_all (heap_of_type t) (m_descriptor_heap_types rm t)")
    case True
    with r b Cons.IH [of acc'] show ?thesis by (simp add: heaps_typed_def)
  next
    case False
    with r b show ?thesis by (simp add: heaps_typed_def)
  qed
qed

lemma Initialize_heaps_typed:
  "heaps_typed heap_types (Initialize sv heap_types settings rm)"
proof -
  have "list_all (heap_of_type t) (m_descriptor_heap_types (Initialize sv heap_types settings rm) t)"
    if "t \<in> set heap_types" for t
    unfolding Initialize_def
    using Initialize_loop_bucket [OF that, of sv settings]
    by (simp add: heap_of_type_def DescriptorHeap_Create_def)
  then show ?thesis by (simp add: heaps_typed_def list_all_iff)
qed

lemma CreateDescriptorHeap_valid:
  "type settings = HeapType t \<Longrightarrow>
   CreateDescriptorHeap settings rm =
     (Inr (word_of_nat (length (m_descriptor_heap_types rm t))),
      rm\<lparr> m_descriptor_heap_types :=
            (m_descriptor_heap_types rm)
              (t := m_descriptor_heap_types rm t @ [Some (DescriptorHeap_Create settings)]) \<rparr>)"
  by (simp add: CreateDescriptorHeap_def Let_def)

lemma CreateDescriptorHeap_heaps_typed:
  assumes "heaps_typed heap_types rm"
  shows "heaps_typed heap_types (snd (CreateDescriptorHeap settings rm))"
proof (cases "type settings")
  case (HeapType t)
  have "list_all (heap_of_type u)
          (m_descriptor_heap_types (snd (CreateDescriptorHeap settings rm)) u)"
    if "u \<in> set heap_types" for u
    using assms that HeapType
    by (auto simp add: CreateDescriptorHeap_valid heaps_typed_def list_all_iff heap_of_type_def
        DescriptorHeap_Create_def)
  then show ?thesis by (simp add: heaps_typed_def list_all_iff)
next
  case Count
  with assms show ?thesis by (simp add: CreateDescriptorHeap_def)
next
  case Undefined
  with assms show ?thesis by (simp add: CreateDescriptorHeap_def)
qed

lemma GetDescriptorHeap_created:
  assumes ty: "type settings = HeapType t"
    and len: "length (m_descriptor_heap_types rm t) < 2 ^ 32"
  shows "GetDescriptorHeap (HeapType t) (word_of_nat (length (m_descriptor_heap_types rm t)))
           (snd (CreateDescriptorHeap settings rm)) = Inr (DescriptorHeap_Create settings)"
proof -
  have u: "unat (word_of_nat (length (m_descriptor_heap_types rm t)) :: 32 word)
             = length (m_descriptor_heap_types rm t)"
    using len by (simp add: unat_of_nat)
  show ?thesis
    using ty by (simp add: CreateDescriptorHeap_valid GetDescriptorHeap_def GetDescriptorHeapPtr_def u)
qed

lemma GetDescriptorHeap_typed:
  assumes ty: "type settings = HeapType t"
    and inv: "list_all (heap_of_type t) (m_descriptor_heap_types rm t)"
  shows "\<exists>heap. GetDescriptorHeap (HeapType t) (word_of_nat (length (m_descriptor_heap_types rm t)))
           (snd (CreateDescriptorHeap settings rm)) = Inr heap
           \<and> type (GetSettings heap) = HeapType t"
proof -
  let ?b = "m_descriptor_heap_types rm t"
  let ?b' = "?b @ [Some (DescriptorHeap_Create settings)]"
  let ?i = "unat (word_of_nat (length ?b) :: 32 word)"
  have i: "?i < length ?b'"
    by (simp add: unat_of_nat le_imp_less_Suc)
  have all: "list_all (heap_of_type t) ?b'"
    using inv ty by (simp add: heap_of_type_def DescriptorHeap_Create_def)
  then have "heap_of_type t (?b' ! ?i)"
    using i by (simp add: list_all_length del: list_all_append)
  then obtain heap where h: "?b' ! ?i = Some heap" "type (GetSettings heap) = HeapType t"
    by (auto simp add: heap_of_type_def split: option.splits)
  have "GetDescriptorHeap (HeapType t) (word_of_nat (length ?b))
           (snd (CreateDescriptorHeap settings rm)) = Inr heap"
    using ty i h(1) by (simp add: CreateDescriptorHeap_valid GetDescriptorHeap_def GetDescriptorHeapPtr_def)
  with h(2) show ?thesis by blast
qed

text \<open>
  C7. \<open>CreateDescriptorHeap\<close> with one of the sentinel types throws the invalid-argument error
  and changes nothing. With a valid type it appends the new heap to the bucket of that type
  and returns an index; \<open>GetDescriptorHeap\<close> with the same type and that index returns the
  heap just created as long as the bucket had fewer than \<open>2 ^ 32\<close> heaps, and in every case a
  heap reporting the requested type when the heaps already in the bucket report it. A heap
  reports the type it was created with. All heaps stored by \<open>Initialize\<close> report the type of
  their bucket and \<open>CreateDescriptorHeap\<close> keeps it so. \<open>ForEachDescriptorHeap\<close> returns
  normally when every stored pointer is set and every heap reports the type of its bucket,
  and throws a logic error otherwise.
\<close>

theorem heap_type_integrity:
  "(type settings = Undefined \<or> type settings = Count \<longrightarrow>
      CreateDescriptorHeap settings rm = (Inl InvalidArgument, rm))
   \<and> (type settings = HeapType t \<longrightarrow>
        m_descriptor_heap_types (snd (CreateDescriptorHeap settings rm)) t
          = m_descriptor_heap_types rm t @ [Some (DescriptorHeap_Create settings)]
        \<and> (\<exists>heap_index. fst (CreateDescriptorHeap settings rm) = Inr heap_index
             \<and> (length (m_descriptor_heap_types rm t) < 2 ^ 32 \<longrightarrow>
                  GetDescriptorHeap (HeapType t) heap_index (snd (CreateDescriptorHeap settings rm))
                    = Inr (DescriptorHeap_Create settings))
             \<and> (list_all (heap_of_type t) (m_descriptor_heap_types rm t) \<longrightarrow>
                  (\<exists>heap. GetDescriptorHeap (HeapType t) heap_index
                             (snd (CreateDescriptorHeap settings rm)) = Inr heap
                          \<and> type (GetSettings heap) = HeapType t))))
   \<and> type (GetSettings (DescriptorHeap_Create settings)) = type settings
   \<and> heaps_typed heap_types (Initialize sv heap_types rm_settings rm)
   \<and> (heaps_typed heap_types rm \<longrightarrow>
        heaps_typed heap_types (snd (CreateDescriptorHeap settings rm)))
   \<and> fst (ForEachDescriptorHeap heap_types process_heap rm acc)
       = (if heaps_typed heap_types rm then Inr () else Inl LogicError)"
proof -
  have sentinel: "type settings = Undefined \<or> type settings = Count \<longrightarrow>
      CreateDescriptorHeap settings rm = (Inl InvalidArgument, rm)"
    by (auto simp add: CreateDescriptorHeap_def)
  have valid: "type settings = HeapType t \<longrightarrow>
        m_descriptor_heap_types (snd (CreateDescriptorHeap settings rm)) t
          = m_descriptor_heap_types rm t @ [Some (DescriptorHeap_Create settings)]
        \<and> (\<exists>heap_index. fst (CreateDescriptorHeap settings rm) = Inr heap_index
             \<and> (length (m_descriptor_heap_types rm t) < 2 ^ 32 \<longrightarrow>
                  GetDescriptorHeap (HeapType t) heap_index (snd (CreateDescriptorHeap settings rm))
                    = Inr (DescriptorHeap_Create settings))
             \<and> (list_all (heap_of_type t) (m_descriptor_heap_types rm t) \<longrightarrow>
                  (\<exists>heap. GetDescriptorHeap (HeapType t) heap_index
                             (snd (CreateDescriptorHeap settings rm)) = Inr heap
                          \<and> type (GetSettings heap) = HeapType t)))"
  proof
    assume ty: "type settings = HeapType t"
    have b: "m_descriptor_heap_types (snd (CreateDescriptorHeap settings rm)) t
          = m_descriptor_heap_types rm t @ [Some (DescriptorHeap_Create settings)]"
      using ty by (simp add: CreateDescriptorHeap_valid)
    have i: "fst (CreateDescriptorHeap settings rm)
               = Inr (word_of_nat (length (m_descriptor_heap_types rm t)))"
      using ty by (simp add: CreateDescriptorHeap_valid)
    from b i GetDescriptorHeap_created [OF ty] GetDescriptorHeap_typed [OF ty]
    show "m_descriptor_heap_types (snd (CreateDescriptorHeap settings rm)) t
          = m_descriptor_heap_types rm t @ [Some (DescriptorHeap_Create settings)]
        \<and> (\<exists>heap_index. fst (CreateDescriptorHeap settings rm) = Inr heap_index
             \<and> (length (m_descriptor_heap_types rm t) < 2 ^ 32 \<longrightarrow>
                  GetDescriptorHeap (HeapType t) heap_index (snd (CreateDescriptorHeap settings rm))
                    = Inr (DescriptorHeap_Create settings))
             \<and> (list_all (heap_of_type t) (m_descriptor_heap_types rm t) \<longrightarrow>
                  (\<exists>heap. GetDescriptorHeap (HeapType t) heap_index
                             (snd (CreateDescriptorHeap settings rm)) = Inr heap
                          \<and> type (GetSettings heap) = HeapType t)))"
      by blast
  qed
  have rep: "type (GetSettings (DescriptorHeap_Create settings)) = type settings"
    by (simp add: DescriptorHeap_Create_def)
  from sentinel valid rep Initialize_heaps_typed [of heap_types sv rm_settings rm]
    CreateDescriptorHeap_heaps_typed [of heap_types rm settings]
    ForEachDescriptorHeap_fst [of heap_types process_heap rm acc]
  show ?thesis by blast
qed

text \<open>A manager with empty buckets: creating a heap of the sentinel type fails, creating a heap
  of type 2 returns index 0, under which that heap is found; the buckets of the four heap
  types stay well typed and \<open>ForEachDescriptorHeap\<close> runs through. With a heap of type 2 put
  into the bucket of type 1, it throws.\<close>

theorem heap_type_integrity_witness:
  "CreateDescriptorHeap
       \<lparr> type = Undefined, size' = 8, deferred_allocation = False, shader_visible = False \<rparr>
       \<lparr> m_deferred_heap_allocation = False, m_descriptor_heap_types = (\<lambda>t::nat. []) \<rparr>
     = (Inl InvalidArgument,
        \<lparr> m_deferred_heap_allocation = False, m_descriptor_heap_types = (\<lambda>t::nat. []) \<rparr>)
   \<and> fst (CreateDescriptorHeap
       \<lparr> type = HeapType 2, size' = 8, deferred_allocation = False, shader_visible = False \<rparr>
       \<lparr> m_deferred_heap_allocation = False, m_descriptor_heap_types = (\<lambda>t::nat. []) \<rparr>) = Inr 0
   \<and> GetDescriptorHeap (HeapType 2) 0
        (snd (CreateDescriptorHeap
           \<lparr> type = HeapType 2, size' = 8, deferred_allocation = False, shader_visible = False \<rparr>
           \<lparr> m_deferred_heap_allocation = False, m_descriptor_heap_types = (\<lambda>t::nat. []) \<rparr>))
       = Inr (DescriptorHeap_Create
           \<lparr> type = HeapType 2, size' = 8, deferred_allocation = False, shader_visible = False \<rparr>)
   \<and> heaps_typed [0, 1, 2, 3]
        (snd (CreateDescriptorHeap
           \<lparr> type = HeapType 2, size' = 8, deferred_allocation = False, shader_visible = False \<rparr>
           \<lparr> m_deferred_heap_allocation = False, m_descriptor_heap_types = (\<lambda>t::nat. []) \<rparr>))
   \<and> fst (ForEachDescriptorHeap [0, 1, 2, 3] (\<lambda>heap n. Suc n)
        \<lparr> m_deferred_heap_allocation = False, m_descriptor_heap_types = (\<lambda>t::nat. []) \<rparr> (0::nat))
       = Inr ()
   \<and> fst (ForEachDescriptorHeap [0, 1, 2, 3] (\<lambda>heap n. Suc n)
        \<lparr> m_deferred_heap_allocation = False,
          m_descriptor_heap_types = (\<lambda>t::nat. [])
            (1 := [Some (DescriptorHeap_Create
               \<lparr> type = HeapType 2, size' = 8, deferred_allocation = False,
                 shader_visible = False \<rparr>)]) \<rparr> (0::nat))
       = Inl LogicError"
proof -
  let ?rm = "\<lparr> m_deferred_heap_allocation = False, m_descriptor_heap_types = (\<lambda>t::nat. []) \<rparr>"
  let ?bad = "\<lparr> m_deferred_heap_allocation = False,
          m_descriptor_heap_types = (\<lambda>t::nat. [])
            (1 := [Some (DescriptorHeap_Create
               \<lparr> type = HeapType 2, size' = 8, deferred_allocation = False,
                 shader_visible = False \<rparr>)]) \<rparr>"
  let ?undef = "\<lparr> type = Undefined :: nat DescriptorHeap_Type, size' = 8,
                  deferred_allocation = False, shader_visible = False \<rparr>"
  let ?two = "\<lparr> type = HeapType (2::nat), size' = 8,
                deferred_allocation = False, shader_visible = False \<rparr>"
  have sentinel: "type ?undef = Undefined \<or> type ?undef = Count" by simp
  have valid: "type ?two = HeapType 2" by simp
  have short: "length (m_descriptor_heap_types ?rm 2) < 2 ^ 32" by simp
  have typed: "heaps_typed [0, 1, 2, 3] ?rm" by (simp add: heaps_typed_def)
  have untyped: "\<not> heaps_typed [0, 1, 2, 3] ?bad"
    by (simp add: heaps_typed_def heap_of_type_def DescriptorHeap_Create_def)
  have index: "fst (CreateDescriptorHeap ?two ?rm) = Inr 0"
    by (simp add: CreateDescriptorHeap_def)
  let ?sv = "\<lambda>ty :: nat DescriptorHeap_Type. ty = HeapType 0 \<or> ty = HeapType 1"
  let ?sizes = "\<lparr> deferred_heap_allocation = False, default_heap_sizes = (\<lambda>t::nat. 16),
                  shader_visible_heap_sizes = (\<lambda>t::nat. 64) \<rparr>"
  note undef = heap_type_integrity [where settings = ?undef and rm = ?rm and t = 2
      and heap_types = "[0, 1, 2, 3]" and process_heap = "\<lambda>heap n. Suc n" and acc = "0::nat"
      and sv = ?sv and rm_settings = ?sizes]
  note two = heap_type_integrity [where settings = ?two and rm = ?rm and t = 2
      and heap_types = "[0, 1, 2, 3]" and process_heap = "\<lambda>heap n. Suc n" and acc = "0::nat"
      and sv = ?sv and rm_settings = ?sizes]
  note bad = heap_type_integrity [where settings = ?two and rm = ?bad and t = 2
      and heap_types = "[0, 1, 2, 3]" and process_heap = "\<lambda>heap n. Suc n" and acc = "0::nat"
      and sv = ?sv and rm_settings = ?sizes]
  from undef [THEN conjunct1] sentinel
  have c1: "CreateDescriptorHeap ?undef ?rm = (Inl InvalidArgument, ?rm)"
    by (rule mp)
  from two valid short index
  have c3: "GetDescriptorHeap (HeapType 2) 0 (snd (CreateDescriptorHeap ?two ?rm))
              = Inr (DescriptorHeap_Create ?two)"
    by auto
  from two typed have c4: "heaps_typed [0, 1, 2, 3] (snd (CreateDescriptorHeap ?two ?rm))"
    by blast
  from two typed
  have c5: "fst (ForEachDescriptorHeap [0, 1, 2, 3] (\<lambda>heap n. Suc n) ?rm (0::nat)) = Inr ()"
    by simp
  from bad untyped
  have c6: "fst (ForEachDescriptorHeap [0, 1, 2, 3] (\<lambda>heap n. Suc n) ?bad (0::nat))
              = Inl LogicError"
    by simp
  from c1 index c3 c4 c5 c6 show ?thesis by blast
qed

section \<open>Render pass: comparing settings\<close>

lemma float_eq_self: "float_eq x x \<longleftrightarrow> \<not> float_is_nan x"
  by (simp add: float_eq_def)

lemma Color4f_eq_self: "Color4f_eq c c \<longleftrightarrow> Color4f_nan_free c"
  by (cases c) (simp add: float_eq_self)

lemma ColorAttachment_eq_self: "ColorAttachment_eq a a \<longleftrightarrow> Color4f_nan_free (clear_color a)"
  by (simp add: ColorAttachment_eq_def Attachment_eq_def Color4f_eq_self)

lemma Settings_eq_self: "Settings_eq s s \<longleftrightarrow> settings_nan_free s"
  by (simp add: Settings_eq_def settings_nan_free_def list_all2_same list_all_iff
      ColorAttachment_eq_self DepthAttachment_eq_def StencilAttachment_eq_def Attachment_eq_def
      float_eq_self)

lemma InitAttachmentStates_loop_eq:
  "InitAttachmentStates_loop color_textures textures barriers
     = common_to_present color_textures textures"
proof (induction color_textures arbitrary: textures barriers)
  case Nil
  then show ?case by (simp add: common_to_present_def)
next
  case (Cons t ts)
  show ?case
  proof (cases "textures t = Common")
    case True
    then have "InitAttachmentStates_loop (t # ts) textures barriers
        = common_to_present ts (textures(t := Present))"
      by (simp add: SetState_def Cons.IH fun_upd_def)
    also have "\<dots> = common_to_present (t # ts) textures"
      using True by (auto simp add: common_to_present_def fun_eq_iff)
    finally show ?thesis .
  next
    case False
    then have "InitAttachmentStates_loop (t # ts) textures barriers
        = common_to_present ts textures"
      by (simp add: Cons.IH)
    also have "\<dots> = common_to_present (t # ts) textures"
      using False by (auto simp add: common_to_present_def fun_eq_iff)
    finally show ?thesis .
  qed
qed

section \<open>Render pass: the memoised colour textures\<close>

lemma push_all_valid:
  "list_all (\<lambda>a. sp_texture a \<noteq> None) atts \<Longrightarrow>
   push_color_attachment_textures atts acc = (Inr (), acc @ attachment_textures atts)"
  by (induction atts arbitrary: acc) auto

lemma push_null:
  "i < length atts \<Longrightarrow> list_all (\<lambda>a. sp_texture a \<noteq> None) (take i atts) \<Longrightarrow>
   sp_texture (atts ! i) = None \<Longrightarrow>
   push_color_attachment_textures atts acc = (Inl InvalidArgument, acc @ attachment_textures (take i atts))"
proof (induction atts arbitrary: i acc)
  case Nil
  then show ?case by simp
next
  case (Cons a atts)
  show ?case
  proof (cases i)
    case 0
    with Cons.prems show ?thesis by simp
  next
    case (Suc j)
    with Cons.prems obtain t where t: "sp_texture a = Some t" by auto
    from Cons.prems Suc have "push_color_attachment_textures atts (acc @ [t])
        = (Inl InvalidArgument, (acc @ [t]) @ attachment_textures (take j atts))"
      by (intro Cons.IH) simp_all
    with t Suc show ?thesis by simp
  qed
qed

lemma push_has_null:
  "\<not> list_all (\<lambda>a. sp_texture a \<noteq> None) atts \<Longrightarrow>
   fst (push_color_attachment_textures atts acc) = Inl InvalidArgument"
  by (induction atts arbitrary: acc) (auto split: option.splits)

lemma length_attachment_textures:
  "list_all (\<lambda>a. sp_texture a \<noteq> None) atts \<Longrightarrow> length (attachment_textures atts) = length atts"
  by (induction atts) auto

lemma InitAttachmentStates_valid:
  "m_color_attachment_textures pass = [] \<Longrightarrow>
   list_all (\<lambda>a. sp_texture a \<noteq> None) (color_attachments (m_settings pass)) \<Longrightarrow>
   InitAttachmentStates pass textures =
     (Inr (),
      pass\<lparr> m_color_attachment_textures := attachment_textures (color_attachments (m_settings pass)) \<rparr>,
      InitAttachmentStates_loop (attachment_textures (color_attachments (m_settings pass))) textures None)"
  by (simp add: InitAttachmentStates_def GetColorAttachmentTextures_def push_all_valid)

lemma InitAttachmentStates_null:
  "m_color_attachment_textures pass = [] \<Longrightarrow>
   \<not> list_all (\<lambda>a. sp_texture a \<noteq> None) (color_attachments (m_settings pass)) \<Longrightarrow>
   fst (InitAttachmentStates pass textures) = Inl InvalidArgument
   \<and> m_settings (fst (snd (InitAttachmentStates pass textures))) = m_settings pass
   \<and> snd (snd (InitAttachmentStates pass textures)) = textures"
proof -
  assume e: "m_color_attachment_textures pass = []"
    and n: "\<not> list_all (\<lambda>a. sp_texture a \<noteq> None) (color_attachments (m_settings pass))"
  obtain r c where p: "push_color_attachment_textures (color_attachments (m_settings pass)) [] = (r, c)"
    by (cases "push_color_attachment_textures (color_attachments (m_settings pass)) []")
  with push_has_null [OF n, of "[]"] have r: "r = Inl InvalidArgument" by simp
  show ?thesis
    using e p r by (simp add: InitAttachmentStates_def GetColorAttachmentTextures_def)
qed

text \<open>
  C8, as the code has it. Settings compare equal to themselves exactly when none of their
  floating-point clear values is a NaN. \<open>Update\<close> with settings that compare equal to the
  current ones returns false and changes nothing, neither in the pass nor in the texture
  states. \<open>Update\<close> with settings that do not compare equal, all of whose colour attachments
  have a texture, returns true; the pass then holds the new settings, an empty list of
  non-frame-buffer textures, no depth texture pointer and no barrier sets, while the list of
  colour textures has been rebuilt from the new settings before \<open>Update\<close> returns, and the
  colour textures that were in the Common state are in the Present state, all other texture
  states being as before. \<open>Update\<close> with settings that do not compare equal and in which a
  colour attachment has no texture throws the invalid-argument error, with the settings
  already replaced and the texture states as before.
\<close>

theorem Update_settings:
  "(Settings_eq settings settings \<longleftrightarrow> settings_nan_free settings)
   \<and> (Settings_eq (m_settings pass) settings \<longrightarrow>
        Update settings pass textures = (Inr False, pass, textures))
   \<and> (\<not> Settings_eq (m_settings pass) settings
        \<and> list_all (\<lambda>a. sp_texture a \<noteq> None) (color_attachments settings) \<longrightarrow>
        Update settings pass textures =
          (Inr True,
           pass\<lparr> m_settings := settings,
                  m_non_frame_buffer_attachment_textures := [],
                  m_color_attachment_textures := attachment_textures (color_attachments settings),
                  m_p_depth_attachment_texture := None,
                  m_sp_begin_transition_barriers := None,
                  m_sp_end_transition_barriers := None \<rparr>,
           common_to_present (attachment_textures (color_attachments settings)) textures))
   \<and> (\<not> Settings_eq (m_settings pass) settings
        \<and> \<not> list_all (\<lambda>a. sp_texture a \<noteq> None) (color_attachments settings) \<longrightarrow>
        fst (Update settings pass textures) = Inl InvalidArgument
        \<and> m_settings (fst (snd (Update settings pass textures))) = settings
        \<and> snd (snd (Update settings pass textures)) = textures)"
proof -
  let ?p1 = "pass\<lparr> m_settings := settings,
                   m_non_frame_buffer_attachment_textures := [],
                   m_color_attachment_textures := [],
                   m_p_depth_attachment_texture := None,
                   m_sp_begin_transition_barriers := None,
                   m_sp_end_transition_barriers := None \<rparr>"
  have same: "Settings_eq (m_settings pass) settings \<longrightarrow>
        Update settings pass textures = (Inr False, pass, textures)"
    by (simp add: Update_def)
  have ok: "\<not> Settings_eq (m_settings pass) settings
        \<and> list_all (\<lambda>a. sp_texture a \<noteq> None) (color_attachments settings) \<longrightarrow>
        Update settings pass textures =
          (Inr True,
           pass\<lparr> m_settings := settings,
                  m_non_frame_buffer_attachment_textures := [],
                  m_color_attachment_textures := attachment_textures (color_attachments settings),
                  m_p_depth_attachment_texture := None,
                  m_sp_begin_transition_barriers := None,
                  m_sp_end_transition_barriers := None \<rparr>,
           common_to_present (attachment_textures (color_attachments settings)) textures)"
    using InitAttachmentStates_valid [of ?p1 textures]
    by (simp add: Update_def InitAttachmentStates_loop_eq)
  have bad: "\<not> Settings_eq (m_settings pass) settings
        \<and> \<not> list_all (\<lambda>a. sp_texture a \<noteq> None) (color_attachments settings) \<longrightarrow>
        fst (Update settings pass textures) = Inl InvalidArgument
        \<and> m_settings (fst (snd (Update settings pass textures))) = settings
        \<and> snd (snd (Update settings pass textures)) = textures"
  proof
    assume a: "\<not> Settings_eq (m_settings pass) settings
        \<and> \<not> list_all (\<lambda>a. sp_texture a \<noteq> None) (color_attachments settings)"
    obtain r p' t' where i: "InitAttachmentStates ?p1 textures = (r, p', t')"
      by (cases "InitAttachmentStates ?p1 textures")
    with InitAttachmentStates_null [of ?p1 textures] a
    have "r = Inl InvalidArgument" "m_settings p' = settings" "t' = textures" by simp_all
    with a i show "fst (Update settings pass textures) = Inl InvalidArgument
        \<and> m_settings (fst (snd (Update settings pass textures))) = settings
        \<and> snd (snd (Update settings pass textures)) = textures"
      by (simp add: Update_def)
  qed
  from same ok bad Settings_eq_self [of settings] show ?thesis by blast
qed

text \<open>A pass without colour attachments, whose begin barrier set holds one barrier, all
  textures being in the Common state: \<open>Update\<close> with the same settings returns false and
  keeps the barrier set; \<open>Update\<close> with a colour attachment on texture 5 returns true, drops
  the barrier set, holds texture 5 in the list of colour textures and has moved texture 5,
  and no other texture, to the Present state.\<close>

theorem Update_settings_witness:
  "Settings_eq (color_only_settings []) (color_only_settings [])
   \<and> \<not> Settings_eq (color_only_settings [])
         (color_only_settings [clear_store_attachment (Some 5)])
   \<and> Update (color_only_settings [])
     \<lparr> m_settings = color_only_settings [], m_is_begun = False,
       m_non_frame_buffer_attachment_textures = [], m_color_attachment_textures = [],
       m_p_depth_attachment_texture = None,
       m_sp_begin_transition_barriers =
         Some [\<lparr> barrier_type = Transition, resource = 3,
                  state_before = Present, state_after = RenderTarget \<rparr>],
       m_sp_end_transition_barriers = None \<rparr> (\<lambda>texture. Common)
   = (Inr False,
      \<lparr> m_settings = color_only_settings [], m_is_begun = False,
       m_non_frame_buffer_attachment_textures = [], m_color_attachment_textures = [],
       m_p_depth_attachment_texture = None,
       m_sp_begin_transition_barriers =
         Some [\<lparr> barrier_type = Transition, resource = 3,
                  state_before = Present, state_after = RenderTarget \<rparr>],
       m_sp_end_transition_barriers = None \<rparr>, (\<lambda>texture. Common))
   \<and> Update (color_only_settings [clear_store_attachment (Some 5)])
     \<lparr> m_settings = color_only_settings [], m_is_begun = False,
       m_non_frame_buffer_attachment_textures = [], m_color_attachment_textures = [],
       m_p_depth_attachment_texture = None,
       m_sp_begin_transition_barriers =
         Some [\<lparr> barrier_type = Transition, resource = 3,
                  state_before = Present, state_after = RenderTarget \<rparr>],
       m_sp_end_transition_barriers = None \<rparr> (\<lambda>texture. Common)
   = (Inr True,
      \<lparr> m_settings = color_only_settings [clear_store_attachment (Some 5)], m_is_begun = False,
       m_non_frame_buffer_attachment_textures = [], m_color_attachment_textures = [5],
       m_p_depth_attachment_texture = None,
       m_sp_begin_transition_barriers = None,
       m_sp_end_transition_barriers = None \<rparr>,
      (\<lambda>texture. Common)(5 := Present))"
proof -
  let ?pass = "\<lparr> m_settings = color_only_settings [], m_is_begun = False,
       m_non_frame_buffer_attachment_textures = [], m_color_attachment_textures = [],
       m_p_depth_attachment_texture = None,
       m_sp_begin_transition_barriers =
         Some [\<lparr> barrier_type = Transition, resource = 3,
                  state_before = Present, state_after = RenderTarget \<rparr>],
       m_sp_end_transition_barriers = None \<rparr>"
  let ?old = "color_only_settings []"
  let ?new = "color_only_settings [clear_store_attachment (Some 5)]"
  let ?tex = "\<lambda>texture :: nat. Common"
  have nan_free: "settings_nan_free ?old"
    by (simp add: settings_nan_free_def color_only_settings_def float_is_nan_def)
  note u0 = Update_settings [where pass = ?pass and settings = ?old and textures = ?tex]
  note u1 = Update_settings [where pass = ?pass and settings = ?new and textures = ?tex]
  from u0 nan_free have same: "Settings_eq ?old ?old" by blast
  then have same': "Settings_eq (m_settings ?pass) ?old" by simp
  have differs: "\<not> Settings_eq ?old ?new"
    by (simp add: Settings_eq_def color_only_settings_def)
  then have other: "\<not> Settings_eq (m_settings ?pass) ?new
        \<and> list_all (\<lambda>a. sp_texture a \<noteq> None) (color_attachments ?new)"
    by (simp add: color_only_settings_def clear_store_attachment_def)
  from u0 same'
  have c1: "Update ?old ?pass ?tex = (Inr False, ?pass, ?tex)"
    by blast
  from u1 other
  have c2: "Update ?new ?pass ?tex =
          (Inr True,
           ?pass\<lparr> m_settings := ?new,
                  m_non_frame_buffer_attachment_textures := [],
                  m_color_attachment_textures := attachment_textures (color_attachments ?new),
                  m_p_depth_attachment_texture := None,
                  m_sp_begin_transition_barriers := None,
                  m_sp_end_transition_barriers := None \<rparr>,
           common_to_present (attachment_textures (color_attachments ?new)) ?tex)"
    by blast
  have t: "attachment_textures (color_attachments ?new) = [5]"
    by (simp add: color_only_settings_def clear_store_attachment_def)
  have s: "common_to_present [5] ?tex = ?tex(5 := Present)"
    by (auto simp add: common_to_present_def fun_eq_iff)
  from same differs c1 c2 show ?thesis unfolding t s by simp
qed

text \<open>C8 as stated fails, on a pass without colour attachments and with all textures in the
  Common state: after \<open>Update\<close> with a colour attachment on texture 5 the list of colour
  textures is not empty, it already holds texture 5; and \<open>Update\<close> with a colour attachment
  without texture does not return true, it throws the invalid-argument error. It fails too
  on a pass whose colour attachment clears to a NaN: \<open>Update\<close> with the very settings of the
  pass returns true.\<close>

theorem Update_rebuilds_color_textures_at_once:
  "fst (Update (color_only_settings [clear_store_attachment (Some 5)])
     \<lparr> m_settings = color_only_settings [], m_is_begun = False,
       m_non_frame_buffer_attachment_textures = [], m_color_attachment_textures = [],
       m_p_depth_attachment_texture = None, m_sp_begin_transition_barriers = None,
       m_sp_end_transition_barriers = None \<rparr> (\<lambda>texture. Common)) = Inr True
   \<and> m_color_attachment_textures (fst (snd
       (Update (color_only_settings [clear_store_attachment (Some 5)])
     \<lparr> m_settings = color_only_settings [], m_is_begun = False,
       m_non_frame_buffer_attachment_textures = [], m_color_attachment_textures = [],
       m_p_depth_attachment_texture = None, m_sp_begin_transition_barriers = None,
       m_sp_end_transition_barriers = None \<rparr> (\<lambda>texture. Common)))) = [5]
   \<and> fst (Update (color_only_settings [clear_store_attachment None])
     \<lparr> m_settings = color_only_settings [], m_is_begun = False,
       m_non_frame_buffer_attachment_textures = [], m_color_attachment_textures = [],
       m_p_depth_attachment_texture = None, m_sp_begin_transition_barriers = None,
       m_sp_end_transition_barriers = None \<rparr> (\<lambda>texture. Common)) = Inl InvalidArgument
   \<and> fst (Update
       (color_only_settings [(clear_store_attachment (Some 5))\<lparr> clear_color := (0x7FC00000, 0, 0, 0) \<rparr>])
     \<lparr> m_settings =
         color_only_settings [(clear_store_attachment (Some 5))\<lparr> clear_color := (0x7FC00000, 0, 0, 0) \<rparr>],
       m_is_begun = False,
       m_non_frame_buffer_attachment_textures = [], m_color_attachment_textures = [5],
       m_p_depth_attachment_texture = None, m_sp_begin_transition_barriers = None,
       m_sp_end_transition_barriers = None \<rparr> (\<lambda>texture. Present)) = Inr True"
  by (simp add: Update_def Settings_eq_def ColorAttachment_eq_def Attachment_eq_def
      float_eq_def float_is_nan_def
      InitAttachmentStates_def GetColorAttachmentTextures_def
      color_only_settings_def clear_store_attachment_def)

section \<open>Render pass: beginning a pass\<close>






section \<open>Render pass: a colour attachment without texture\<close>

text \<open>
  C10. When the list of colour textures is not yet memoised, the colour attachments before
  position \<open>i > 0\<close> have textures and the one at position \<open>i\<close> has none,
  \<open>GetColorAttachmentTextures\<close> throws the invalid-argument error and leaves the first \<open>i\<close>
  textures in the memoised list; the next call returns that list of \<open>i\<close> textures without
  throwing and changes nothing, and so does every call after it.
\<close>

theorem GetColorAttachmentTextures_partial_cache:
  assumes empty: "m_color_attachment_textures pass = []"
    and pos: "0 < i"
    and len: "i < length (color_attachments (m_settings pass))"
    and valid: "list_all (\<lambda>a. sp_texture a \<noteq> None) (take i (color_attachments (m_settings pass)))"
    and null: "sp_texture (color_attachments (m_settings pass) ! i) = None"
  shows "GetColorAttachmentTextures pass =
           (Inl InvalidArgument,
            pass\<lparr> m_color_attachment_textures :=
                    attachment_textures (take i (color_attachments (m_settings pass))) \<rparr>)
         \<and> length (attachment_textures (take i (color_attachments (m_settings pass)))) = i
         \<and> GetColorAttachmentTextures (snd (GetColorAttachmentTextures pass)) =
             (Inr (attachment_textures (take i (color_attachments (m_settings pass)))),
              snd (GetColorAttachmentTextures pass))
         \<and> ((\<lambda>p. snd (GetColorAttachmentTextures p)) ^^ n) (snd (GetColorAttachmentTextures pass))
             = snd (GetColorAttachmentTextures pass)"
proof -
  let ?atts = "color_attachments (m_settings pass)"
  let ?part = "attachment_textures (take i ?atts)"
  let ?pass' = "pass\<lparr> m_color_attachment_textures := ?part \<rparr>"
  have first: "GetColorAttachmentTextures pass = (Inl InvalidArgument, ?pass')"
    using push_null [OF len valid null, of "[]"] empty
    by (simp add: GetColorAttachmentTextures_def)
  have n: "length ?part = i"
    using length_attachment_textures [OF valid] len by simp
  with pos have ne: "?part \<noteq> []" by auto
  have again: "GetColorAttachmentTextures ?pass' = (Inr ?part, ?pass')"
    using ne by (simp add: GetColorAttachmentTextures_def)
  have iter: "((\<lambda>p. snd (GetColorAttachmentTextures p)) ^^ n) ?pass' = ?pass'"
    by (induction n) (simp_all add: again)
  from first n again iter show ?thesis by simp
qed

text \<open>Three colour attachments, the second without texture: the first call throws and leaves
  texture 4 in the list, the second call returns the list with texture 4.\<close>

theorem GetColorAttachmentTextures_partial_cache_witness:
  "GetColorAttachmentTextures
     \<lparr> m_settings = color_only_settings
         [clear_store_attachment (Some 4), clear_store_attachment None, clear_store_attachment (Some 6)],
       m_is_begun = False, m_non_frame_buffer_attachment_textures = [],
       m_color_attachment_textures = [], m_p_depth_attachment_texture = None,
       m_sp_begin_transition_barriers = None, m_sp_end_transition_barriers = None \<rparr>
   = (Inl InvalidArgument,
      \<lparr> m_settings = color_only_settings
         [clear_store_attachment (Some 4), clear_store_attachment None, clear_store_attachment (Some 6)],
       m_is_begun = False, m_non_frame_buffer_attachment_textures = [],
       m_color_attachment_textures = [4], m_p_depth_attachment_texture = None,
       m_sp_begin_transition_barriers = None, m_sp_end_transition_barriers = None \<rparr>)
   \<and> fst (GetColorAttachmentTextures
      \<lparr> m_settings = color_only_settings
         [clear_store_attachment (Some 4), clear_store_attachment None, clear_store_attachment (Some 6)],
       m_is_begun = False, m_non_frame_buffer_attachment_textures = [],
       m_color_attachment_textures = [4], m_p_depth_attachment_texture = None,
       m_sp_begin_transition_barriers = None, m_sp_end_transition_barriers = None \<rparr>) = Inr [4]"
proof -
  let ?pass = "\<lparr> m_settings = color_only_settings
         [clear_store_attachment (Some 4), clear_store_attachment None, clear_store_attachment (Some 6)],
       m_is_begun = False, m_non_frame_buffer_attachment_textures = [],
       m_color_attachment_textures = [], m_p_depth_attachment_texture = None,
       m_sp_begin_transition_barriers = None, m_sp_end_transition_barriers = None \<rparr>"
  have empty: "m_color_attachment_textures ?pass = []" by simp
  have pos: "0 < Suc 0" by simp
  have len: "Suc 0 < length (color_attachments (m_settings ?pass))"
    by (simp add: color_only_settings_def)
  have valid: "list_all (\<lambda>a. sp_texture a \<noteq> None)
                 (take (Suc 0) (color_attachments (m_settings ?pass)))"
    by (simp add: color_only_settings_def clear_store_attachment_def)
  have null: "sp_texture (color_attachments (m_settings ?pass) ! Suc 0) = None"
    by (simp add: color_only_settings_def clear_store_attachment_def)
  from GetColorAttachmentTextures_partial_cache [OF empty pos len valid null, of 0]
  show ?thesis
    by (simp add: GetColorAttachmentTextures_def color_only_settings_def clear_store_attachment_def)
qed

end
